theory Spec2Isabelle
  imports Complex_Main
begin

section \<open>Machine numbers\<close>

subsection \<open>32-bit signed integers\<close>

text \<open>
  The program's \<^verbatim>\<open>int\<close> is a 32-bit signed integer. Values are modelled as
  mathematical integers and every operation that stores into program state is followed by
  \<open>wrap32\<close>, the two's complement wrap-around of the hardware. C++ leaves signed overflow
  undefined, so a wrapped value stands for "anything may happen"; \<open>int32\<close> says that a
  value is in range.
\<close>

definition wrap32 :: "int \<Rightarrow> int" where
  "wrap32 i = (i + 2147483648) mod 4294967296 - 2147483648"

definition int32 :: "int \<Rightarrow> bool" where
  "int32 i = (- 2147483648 \<le> i \<and> i \<le> 2147483647)"

subsection \<open>IEEE 754 binary32\<close>

text \<open>
  The program's \<^verbatim>\<open>float\<close> is IEEE 754 binary32 with round-to-nearest, ties-to-even,
  every operation rounded to binary32 on its own. \<open>Fin m e\<close> is the number \<open>m * 2^e\<close>. The
  operations below return the canonical form of a value: \<open>\<bar>m\<bar> < 2^24\<close>,
  \<open>- 149 \<le> e \<le> 104\<close>, and \<open>2^23 \<le> \<bar>m\<bar>\<close> unless \<open>e = - 149\<close> (the subnormal numbers and
  zero). Zero carries no sign: the program compares, adds and multiplies zeros, which does
  not tell \<open>-0\<close> from \<open>+0\<close>, and its two divisors (\<^verbatim>\<open>RAND_MAX\<close> and a fire rate) are not
  computed zeros.
\<close>

datatype float32 = Fin int int | PInf | NInf | NaN

text \<open>Number of binary digits of a positive integer.\<close>

function blen :: "int \<Rightarrow> int" where
  "blen a = (if a \<le> 0 then 0 else 1 + blen (a div 2))"
  by pat_completeness auto
termination
  by (relation "measure nat") auto

declare blen.simps [simp del]

text \<open>\<open>rne a s\<close>: the integer nearest to \<open>a / 2^s\<close>, a tie going to the even one.\<close>

definition rne :: "int \<Rightarrow> nat \<Rightarrow> int" where
  "rne a s = (let q = a div 2 ^ s; r = a mod 2 ^ s; h = 2 ^ (s - 1)
              in if h < r \<or> (r = h \<and> odd q) then q + 1 else q)"

text \<open>
  \<open>round_fin m e\<close>: the binary32 value nearest to \<open>m * 2^e\<close>. The exponent \<open>t\<close> of the result
  leaves 24 digits to the significand, and is never below the subnormal exponent; a
  significand rounded up to \<open>2^24\<close> moves to the next exponent; past the largest exponent the
  result is an infinity.
\<close>

definition round_fin :: "int \<Rightarrow> int \<Rightarrow> float32" where
  "round_fin m e =
     (if m = 0 then Fin 0 (- 149)
      else let a = \<bar>m\<bar>;
               t = max (e + blen a - 24) (- 149);
               q = (if t \<le> e then a * 2 ^ nat (e - t) else rne a (nat (t - e)));
               q' = (if q = 2 ^ 24 then 2 ^ 23 else q);
               t' = (if q = 2 ^ 24 then t + 1 else t)
           in if 104 < t' then (if m < 0 then NInf else PInf)
              else Fin (if m < 0 then - q' else q') t')"

text \<open>
  \<open>round_ratio n d e\<close>: the binary32 value nearest to \<open>(n / d) * 2^e\<close>, for \<open>d \<noteq> 0\<close>. The
  quotient is computed to at least 26 digits and a last digit records whether the division
  left a remainder, so that rounding the integer rounds the exact quotient.
\<close>

definition round_ratio :: "int \<Rightarrow> int \<Rightarrow> int \<Rightarrow> float32" where
  "round_ratio n d e =
     (let k = blen \<bar>d\<bar> + 26;
          a = \<bar>n\<bar> * 2 ^ nat k;
          q = a div \<bar>d\<bar>;
          s = (if a mod \<bar>d\<bar> = 0 then 0 else 1);
          m = 2 * q + s
      in round_fin (if (n < 0) = (d < 0) then m else - m) (e - k - 1))"

text \<open>Conversion of an \<^verbatim>\<open>int\<close> to \<^verbatim>\<open>float\<close>, and a decimal literal \<open>n / d\<close>.\<close>

definition f32 :: "int \<Rightarrow> float32" where
  "f32 i = round_fin i 0"

definition lit :: "int \<Rightarrow> int \<Rightarrow> float32" where
  "lit n d = round_ratio n d 0"

fun fneg :: "float32 \<Rightarrow> float32" where
  "fneg (Fin m e) = Fin (- m) e"
| "fneg PInf = NInf"
| "fneg NInf = PInf"
| "fneg NaN = NaN"

fun fadd :: "float32 \<Rightarrow> float32 \<Rightarrow> float32" where
  "fadd NaN _ = NaN"
| "fadd _ NaN = NaN"
| "fadd PInf NInf = NaN"
| "fadd NInf PInf = NaN"
| "fadd PInf _ = PInf"
| "fadd _ PInf = PInf"
| "fadd NInf _ = NInf"
| "fadd _ NInf = NInf"
| "fadd (Fin m1 e1) (Fin m2 e2) =
     (let e = min e1 e2 in round_fin (m1 * 2 ^ nat (e1 - e) + m2 * 2 ^ nat (e2 - e)) e)"

definition fsub :: "float32 \<Rightarrow> float32 \<Rightarrow> float32" where
  "fsub a b = fadd a (fneg b)"

fun fmul :: "float32 \<Rightarrow> float32 \<Rightarrow> float32" where
  "fmul NaN _ = NaN"
| "fmul _ NaN = NaN"
| "fmul (Fin m1 e1) (Fin m2 e2) = round_fin (m1 * m2) (e1 + e2)"
| "fmul (Fin m e) PInf = (if m = 0 then NaN else if 0 < m then PInf else NInf)"
| "fmul (Fin m e) NInf = (if m = 0 then NaN else if 0 < m then NInf else PInf)"
| "fmul PInf (Fin m e) = (if m = 0 then NaN else if 0 < m then PInf else NInf)"
| "fmul NInf (Fin m e) = (if m = 0 then NaN else if 0 < m then NInf else PInf)"
| "fmul PInf PInf = PInf"
| "fmul PInf NInf = NInf"
| "fmul NInf PInf = NInf"
| "fmul NInf NInf = PInf"

fun fdiv :: "float32 \<Rightarrow> float32 \<Rightarrow> float32" where
  "fdiv NaN _ = NaN"
| "fdiv _ NaN = NaN"
| "fdiv (Fin m1 e1) (Fin m2 e2) =
     (if m2 = 0 then (if m1 = 0 then NaN else if 0 < m1 then PInf else NInf)
      else round_ratio m1 m2 (e1 - e2))"
| "fdiv (Fin m e) PInf = Fin 0 (- 149)"
| "fdiv (Fin m e) NInf = Fin 0 (- 149)"
| "fdiv PInf (Fin m e) = (if m < 0 then NInf else PInf)"
| "fdiv NInf (Fin m e) = (if m < 0 then PInf else NInf)"
| "fdiv PInf PInf = NaN"
| "fdiv PInf NInf = NaN"
| "fdiv NInf PInf = NaN"
| "fdiv NInf NInf = NaN"

text \<open>The comparisons; every comparison with a NaN is false.\<close>

fun flt :: "float32 \<Rightarrow> float32 \<Rightarrow> bool" where
  "flt NaN _ = False"
| "flt _ NaN = False"
| "flt (Fin m1 e1) (Fin m2 e2) =
     (let e = min e1 e2 in m1 * 2 ^ nat (e1 - e) < m2 * 2 ^ nat (e2 - e))"
| "flt PInf _ = False"
| "flt _ NInf = False"
| "flt _ PInf = True"
| "flt NInf _ = True"

fun fle :: "float32 \<Rightarrow> float32 \<Rightarrow> bool" where
  "fle NaN _ = False"
| "fle _ NaN = False"
| "fle (Fin m1 e1) (Fin m2 e2) =
     (let e = min e1 e2 in m1 * 2 ^ nat (e1 - e) \<le> m2 * 2 ^ nat (e2 - e))"
| "fle NInf _ = True"
| "fle _ PInf = True"
| "fle PInf _ = False"
| "fle _ NInf = False"

definition fgt :: "float32 \<Rightarrow> float32 \<Rightarrow> bool" where
  "fgt a b = flt b a"

definition fge :: "float32 \<Rightarrow> float32 \<Rightarrow> bool" where
  "fge a b = fle b a"

text \<open>The real number a finite value stands for.\<close>

definition fval :: "int \<Rightarrow> int \<Rightarrow> real" where
  "fval m e = real_of_int m * 2 powi e"

text \<open>A finite value that lies between two real numbers.\<close>

definition fin_between :: "real \<Rightarrow> real \<Rightarrow> float32 \<Rightarrow> bool" where
  "fin_between lo hi x = (case x of Fin m e \<Rightarrow> lo \<le> fval m e \<and> fval m e \<le> hi | _ \<Rightarrow> False)"

text \<open>Integer square root (rounded down), and the correctly rounded \<^verbatim>\<open>sqrtf\<close>.\<close>

function isqrt :: "int \<Rightarrow> int" where
  "isqrt n = (if n \<le> 0 then 0 else if n < 4 then 1
              else let r = 2 * isqrt (n div 4)
                   in if (r + 1) * (r + 1) \<le> n then r + 1 else r)"
  by pat_completeness auto
termination
  by (relation "measure nat") auto

declare isqrt.simps [simp del]

fun fsqrt :: "float32 \<Rightarrow> float32" where
  "fsqrt (Fin m e) =
     (if m < 0 then NaN else if m = 0 then Fin 0 (- 149)
      else let k = (if even e then 52 else 53);
               a = m * 2 ^ nat k;
               s = isqrt a;
               st = (if s * s = a then 0 else 1)
           in round_fin (2 * s + st) ((e - k) div 2 - 1))"
| "fsqrt PInf = PInf"
| "fsqrt NInf = NaN"
| "fsqrt NaN = NaN"

text \<open>\<^verbatim>\<open>fmodf\<close>: the exact remainder of the truncated division, with the sign of the dividend.\<close>

fun fmodf :: "float32 \<Rightarrow> float32 \<Rightarrow> float32" where
  "fmodf (Fin m1 e1) (Fin m2 e2) =
     (if m2 = 0 then NaN
      else let e = min e1 e2;
               a = m1 * 2 ^ nat (e1 - e);
               b = \<bar>m2\<bar> * 2 ^ nat (e2 - e);
               r = \<bar>a\<bar> mod b
           in round_fin (if a < 0 then - r else r) e)"
| "fmodf (Fin m e) PInf = Fin m e"
| "fmodf (Fin m e) NInf = Fin m e"
| "fmodf _ _ = NaN"

text \<open>\<^verbatim>\<open>fminf\<close>: the smaller argument, a NaN counting as missing.\<close>

fun fminf :: "float32 \<Rightarrow> float32 \<Rightarrow> float32" where
  "fminf NaN b = b"
| "fminf a NaN = a"
| "fminf a b = (if flt b a then b else a)"

section \<open>Library functions the program calls\<close>

text \<open>
  \<^verbatim>\<open>raylib.h\<close>, \<^verbatim>\<open>raymath.h\<close> and the C library are not part of the repository. The
  vector functions are modelled by their bodies in \<^verbatim>\<open>raymath.h\<close>, one rounding per
  operation.
\<close>

record Vector2 =
  vec_x :: float32
  vec_y :: float32

definition Vector2Add :: "Vector2 \<Rightarrow> Vector2 \<Rightarrow> Vector2" where
  "Vector2Add v1 v2 = \<lparr>vec_x = fadd (vec_x v1) (vec_x v2), vec_y = fadd (vec_y v1) (vec_y v2)\<rparr>"

definition Vector2Subtract :: "Vector2 \<Rightarrow> Vector2 \<Rightarrow> Vector2" where
  "Vector2Subtract v1 v2 =
     \<lparr>vec_x = fsub (vec_x v1) (vec_x v2), vec_y = fsub (vec_y v1) (vec_y v2)\<rparr>"

definition Vector2Scale :: "Vector2 \<Rightarrow> float32 \<Rightarrow> Vector2" where
  "Vector2Scale v k = \<lparr>vec_x = fmul (vec_x v) k, vec_y = fmul (vec_y v) k\<rparr>"

definition Vector2Distance :: "Vector2 \<Rightarrow> Vector2 \<Rightarrow> float32" where
  "Vector2Distance v1 v2 =
     (let dx = fsub (vec_x v1) (vec_x v2); dy = fsub (vec_y v1) (vec_y v2)
      in fsqrt (fadd (fmul dx dx) (fmul dy dy)))"

definition Vector2Normalize :: "Vector2 \<Rightarrow> Vector2" where
  "Vector2Normalize v =
     (let len = fsqrt (fadd (fmul (vec_x v) (vec_x v)) (fmul (vec_y v) (vec_y v)))
      in if fgt len (f32 0)
         then let ilength = fdiv (f32 1) len
              in \<lparr>vec_x = fmul (vec_x v) ilength, vec_y = fmul (vec_y v) ilength\<rparr>
         else \<lparr>vec_x = f32 0, vec_y = f32 0\<rparr>)"

text \<open>raylib's \<^verbatim>\<open>PI\<close> and \<^verbatim>\<open>DEG2RAD = PI/180.0f\<close>.\<close>

definition PI :: float32 where
  "PI = lit 314159265358979323846 100000000000000000000"

definition DEG2RAD :: float32 where
  "DEG2RAD = fdiv PI (f32 180)"

text \<open>
  What the platform supplies and the program cannot compute: \<^verbatim>\<open>sinf\<close> and \<^verbatim>\<open>cosf\<close>
  (whose last digit the C library decides), \<^verbatim>\<open>RAND_MAX\<close>, the width of the ship texture,
  and the depth of call stack left to a recursion that nothing else bounds.
\<close>

record platform =
  sinf :: "float32 \<Rightarrow> float32"
  cosf :: "float32 \<Rightarrow> float32"
  RAND_MAX :: int
  texture_width :: int
  stack_depth :: nat

text \<open>
  \<^verbatim>\<open>GetRandomValue(min, max)\<close> of raylib, as a function of the draw \<open>r\<close> of the generator
  behind it: a value between \<open>min\<close> and \<open>max\<close>.
\<close>

definition GetRandomValue :: "int \<Rightarrow> int \<Rightarrow> int \<Rightarrow> int" where
  "GetRandomValue r lo hi =
     (let a = min lo hi; b = max lo hi in r mod (\<bar>b - a\<bar> + 1) + a)"

section \<open>Utils\<close>

text \<open>\<^verbatim>\<open>Utils::RandomFloat\<close>; \<open>r\<close> is the result of \<^verbatim>\<open>rand()\<close>.\<close>

definition RandomFloat :: "platform \<Rightarrow> int \<Rightarrow> float32 \<Rightarrow> float32 \<Rightarrow> float32" where
  "RandomFloat P r lo hi = fadd lo (fmul (fdiv (f32 r) (f32 (RAND_MAX P))) (fsub hi lo))"

section \<open>Transform, physics, renderer\<close>

record TransformA =
  position :: Vector2
  rotation :: float32

record Physics =
  velocity :: Vector2
  rotationSpeed :: float32

text \<open>The renderer singleton: only the screen size set by \<^verbatim>\<open>Init\<close> is state.\<close>

record Renderer =
  screenW :: int
  screenH :: int

definition Renderer_Init :: "int \<Rightarrow> int \<Rightarrow> Renderer" where
  "Renderer_Init w h = \<lparr>screenW = w, screenH = h\<rparr>"

definition Width :: "Renderer \<Rightarrow> int" where
  "Width R = screenW R"

definition Height :: "Renderer \<Rightarrow> int" where
  "Height R = screenH R"

section \<open>Asteroids\<close>

text \<open>
  The three subclasses differ in the base damage their constructor sets and in the polygon
  they draw; \<open>a_class\<close> is the dynamic class of the object. \<open>render_size\<close> is the value of
  the enum \<^verbatim>\<open>Renderable::Size\<close> (\<^verbatim>\<open>SMALL = 1, MEDIUM = 2, LARGE = 4\<close>).
\<close>

datatype AsteroidClass = TriangleAsteroid | SquareAsteroid | PentagonAsteroid

record Asteroid =
  a_transform :: TransformA
  a_physics :: Physics
  render_size :: int
  a_baseDamage :: int
  a_class :: AsteroidClass

definition Asteroid_GetPosition :: "Asteroid \<Rightarrow> Vector2" where
  "Asteroid_GetPosition a = position (a_transform a)"

definition Asteroid_GetRadius :: "Asteroid \<Rightarrow> float32" where
  "Asteroid_GetRadius a = fmul (f32 16) (f32 (render_size a))"

definition Asteroid_GetDamage :: "Asteroid \<Rightarrow> int" where
  "Asteroid_GetDamage a = wrap32 (a_baseDamage a * render_size a)"

definition Asteroid_GetSize :: "Asteroid \<Rightarrow> int" where
  "Asteroid_GetSize a = render_size a"

text \<open>
  \<^verbatim>\<open>Asteroid::Update\<close> moves and turns the asteroid and returns whether it is still
  inside the screen grown by its radius. The asteroid is changed also when the result is
  \<open>False\<close>.
\<close>

definition Asteroid_Update :: "Renderer \<Rightarrow> float32 \<Rightarrow> Asteroid \<Rightarrow> bool \<times> Asteroid" where
  "Asteroid_Update R dt a =
     (let pos = Vector2Add (position (a_transform a)) (Vector2Scale (velocity (a_physics a)) dt);
          rot = fadd (rotation (a_transform a)) (fmul (rotationSpeed (a_physics a)) dt);
          a' = a\<lparr>a_transform := \<lparr>position = pos, rotation = rot\<rparr>\<rparr>
      in if flt (vec_x pos) (fneg (Asteroid_GetRadius a'))
            \<or> fgt (vec_x pos) (fadd (f32 (Width R)) (Asteroid_GetRadius a'))
            \<or> flt (vec_y pos) (fneg (Asteroid_GetRadius a'))
            \<or> fgt (vec_y pos) (fadd (f32 (Height R)) (Asteroid_GetRadius a'))
         then (False, a') else (True, a'))"

text \<open>The draws \<^verbatim>\<open>Asteroid::init\<close> and \<^verbatim>\<open>MakeAsteroid\<close> take from the generators, in order.\<close>

record asteroid_draws =
  size_draw :: int
  edge_draw :: int
  along_draw :: int
  ang_draw :: int
  rad_draw :: int
  speed_draw :: int
  spin_draw :: int
  rot_draw :: int
  shape_draw :: int

definition SPEED_MIN :: float32 where "SPEED_MIN = f32 125"
definition SPEED_MAX :: float32 where "SPEED_MAX = f32 250"
definition ROT_MIN :: float32 where "ROT_MIN = f32 50"
definition ROT_MAX :: float32 where "ROT_MAX = f32 240"

text \<open>
  \<^verbatim>\<open>Asteroid::init\<close>, run by the base constructor: it sets the size, then the position on
  one of the four edges, then velocity and rotation. The base damage is still \<open>0\<close> and
  the class is given by the subclass constructor that runs next.
\<close>

definition Asteroid_init :: "platform \<Rightarrow> int \<Rightarrow> int \<Rightarrow> asteroid_draws \<Rightarrow> AsteroidClass \<Rightarrow> Asteroid" where
  "Asteroid_init P w h d c =
     (let sz = 2 ^ nat (GetRandomValue (size_draw d) 0 2);
          radius = fmul (f32 16) (f32 sz);
          edge = GetRandomValue (edge_draw d) 0 3;
          pos =
            (if edge = 0 then
               \<lparr>vec_x = RandomFloat P (along_draw d) (f32 0) (f32 w), vec_y = fneg radius\<rparr>
             else if edge = 1 then
               \<lparr>vec_x = fadd (f32 w) radius, vec_y = RandomFloat P (along_draw d) (f32 0) (f32 h)\<rparr>
             else if edge = 2 then
               \<lparr>vec_x = RandomFloat P (along_draw d) (f32 0) (f32 w), vec_y = fadd (f32 h) radius\<rparr>
             else
               \<lparr>vec_x = fneg radius, vec_y = RandomFloat P (along_draw d) (f32 0) (f32 h)\<rparr>);
          maxOff = fmul (fminf (f32 w) (f32 h)) (lit 1 10);
          ang = RandomFloat P (ang_draw d) (f32 0) (fmul (f32 2) PI);
          rad = RandomFloat P (rad_draw d) (f32 0) maxOff;
          center =
            \<lparr>vec_x = fadd (fmul (f32 w) (lit 1 2)) (fmul (cosf P ang) rad),
             vec_y = fadd (fmul (f32 h) (lit 1 2)) (fmul (sinf P ang) rad)\<rparr>;
          dir = Vector2Normalize (Vector2Subtract center pos);
          vel = Vector2Scale dir (RandomFloat P (speed_draw d) SPEED_MIN SPEED_MAX);
          spin = RandomFloat P (spin_draw d) ROT_MIN ROT_MAX;
          rot = RandomFloat P (rot_draw d) (f32 0) (f32 360)
      in \<lparr>a_transform = \<lparr>position = pos, rotation = rot\<rparr>,
          a_physics = \<lparr>velocity = vel, rotationSpeed = spin\<rparr>,
          render_size = sz, a_baseDamage = 0, a_class = c\<rparr>)"

definition new_TriangleAsteroid :: "platform \<Rightarrow> int \<Rightarrow> int \<Rightarrow> asteroid_draws \<Rightarrow> Asteroid" where
  "new_TriangleAsteroid P w h d = (Asteroid_init P w h d TriangleAsteroid)\<lparr>a_baseDamage := 5\<rparr>"

definition new_SquareAsteroid :: "platform \<Rightarrow> int \<Rightarrow> int \<Rightarrow> asteroid_draws \<Rightarrow> Asteroid" where
  "new_SquareAsteroid P w h d = (Asteroid_init P w h d SquareAsteroid)\<lparr>a_baseDamage := 10\<rparr>"

definition new_PentagonAsteroid :: "platform \<Rightarrow> int \<Rightarrow> int \<Rightarrow> asteroid_draws \<Rightarrow> Asteroid" where
  "new_PentagonAsteroid P w h d = (Asteroid_init P w h d PentagonAsteroid)\<lparr>a_baseDamage := 15\<rparr>"

datatype AsteroidShape = TRIANGLE | SQUARE | PENTAGON | RANDOM

text \<open>
  \<^verbatim>\<open>MakeAsteroid\<close>. In the default case the source calls itself with the shape
  \<open>3 + GetRandomValue(0, 2)\<close>, one of \<^verbatim>\<open>TRIANGLE = 3\<close>, \<^verbatim>\<open>SQUARE = 4\<close>,
  \<^verbatim>\<open>PENTAGON = 5\<close>; the model makes that second call's choice in place.
\<close>

definition MakeAsteroid :: "platform \<Rightarrow> int \<Rightarrow> int \<Rightarrow> AsteroidShape \<Rightarrow> asteroid_draws \<Rightarrow> Asteroid" where
  "MakeAsteroid P w h shape d =
     (case shape of
        TRIANGLE \<Rightarrow> new_TriangleAsteroid P w h d
      | SQUARE \<Rightarrow> new_SquareAsteroid P w h d
      | PENTAGON \<Rightarrow> new_PentagonAsteroid P w h d
      | RANDOM \<Rightarrow>
          (let k = 3 + GetRandomValue (shape_draw d) 0 2
           in if k = 3 then new_TriangleAsteroid P w h d
              else if k = 4 then new_SquareAsteroid P w h d
              else new_PentagonAsteroid P w h d))"

text \<open>An asteroid's life after its creation: one \<^verbatim>\<open>Update\<close> per frame.\<close>

fun Asteroid_updates :: "Renderer \<Rightarrow> float32 list \<Rightarrow> Asteroid \<Rightarrow> Asteroid" where
  "Asteroid_updates R [] a = a"
| "Asteroid_updates R (dt # dts) a = Asteroid_updates R dts (snd (Asteroid_Update R dt a))"

section \<open>Projectiles\<close>

datatype WeaponType = LASER | BULLET | COUNT

record Projectile =
  p_transform :: TransformA
  p_physics :: Physics
  p_baseDamage :: int
  p_type :: WeaponType

definition new_Projectile :: "Vector2 \<Rightarrow> Vector2 \<Rightarrow> int \<Rightarrow> WeaponType \<Rightarrow> Projectile" where
  "new_Projectile pos vel dmg wt =
     \<lparr>p_transform = \<lparr>position = pos, rotation = f32 0\<rparr>,
      p_physics = \<lparr>velocity = vel, rotationSpeed = f32 0\<rparr>,
      p_baseDamage = dmg, p_type = wt\<rparr>"

text \<open>\<^verbatim>\<open>Projectile::Update\<close> moves the projectile and returns whether it left the screen.\<close>

definition Projectile_Update :: "Renderer \<Rightarrow> float32 \<Rightarrow> Projectile \<Rightarrow> bool \<times> Projectile" where
  "Projectile_Update R dt p =
     (let pos = Vector2Add (position (p_transform p)) (Vector2Scale (velocity (p_physics p)) dt);
          p' = p\<lparr>p_transform := (p_transform p)\<lparr>position := pos\<rparr>\<rparr>
      in if flt (vec_x pos) (f32 0) \<or> fgt (vec_x pos) (f32 (Width R))
            \<or> flt (vec_y pos) (f32 0) \<or> fgt (vec_y pos) (f32 (Height R))
         then (True, p') else (False, p'))"

definition Projectile_GetPosition :: "Projectile \<Rightarrow> Vector2" where
  "Projectile_GetPosition p = position (p_transform p)"

definition Projectile_GetRadius :: "Projectile \<Rightarrow> float32" where
  "Projectile_GetRadius p = (if p_type p = BULLET then f32 5 else f32 2)"

definition Projectile_GetDamage :: "Projectile \<Rightarrow> int" where
  "Projectile_GetDamage p = p_baseDamage p"

definition MakeProjectile :: "platform \<Rightarrow> WeaponType \<Rightarrow> Vector2 \<Rightarrow> float32 \<Rightarrow> float32 \<Rightarrow> Projectile" where
  "MakeProjectile P wt pos speed rotationDeg =
     (let rotationRad = fmul DEG2RAD rotationDeg;
          dir = \<lparr>vec_x = sinf P rotationRad, vec_y = fneg (cosf P rotationRad)\<rparr>;
          vel = Vector2Scale dir speed
      in if wt = LASER then new_Projectile pos vel 20 wt else new_Projectile pos vel 10 wt)"

section \<open>Ships\<close>

text \<open>
  The fields of one ship object, those of \<^verbatim>\<open>Ship\<close> and of its only subclass
  \<^verbatim>\<open>PlayerShip\<close> (\<open>texture_w\<close> is \<^verbatim>\<open>texture.width\<close>, \<open>ship_rotation\<close> the field
  \<^verbatim>\<open>PlayerShip::rotation\<close>). \<open>parent\<close> says whether the parent pointer is set: the only
  call of \<^verbatim>\<open>SetParent\<close> passes the ship that owns the orbiter, so the pointer's target
  is the owner in the tree.
\<close>

record ShipObj =
  transform :: TransformA
  hp :: int
  speed :: float32
  alive :: bool
  fireRateLaser :: float32
  fireRateBullet :: float32
  spacingLaser :: float32
  spacingBullet :: float32
  parent :: bool
  orbitRadius :: float32
  orbitAngle :: float32
  score :: int
  texture_w :: int
  scale :: float32
  ship_rotation :: float32

text \<open>A ship owns its orbiters (\<^verbatim>\<open>std::vector<std::unique_ptr<Ship>>\<close>): a tree.\<close>

datatype Ship = Ship (obj: ShipObj) (orbiters: "Ship list")

text \<open>
  The constructors \<^verbatim>\<open>Ship(screenW, screenH)\<close> and \<^verbatim>\<open>PlayerShip(w, h, sharedTex, scale_)\<close>;
  \<open>tex\<close> is the width of the texture the ship ends up with, shared or loaded.
\<close>

definition new_PlayerShip :: "int \<Rightarrow> int \<Rightarrow> int \<Rightarrow> float32 \<Rightarrow> ShipObj" where
  "new_PlayerShip w h tex scale0 =
     \<lparr>transform = \<lparr>position = \<lparr>vec_x = fmul (f32 w) (lit 1 2), vec_y = fmul (f32 h) (lit 1 2)\<rparr>,
                   rotation = f32 0\<rparr>,
      hp = 100, speed = f32 250, alive = True,
      fireRateLaser = f32 18, fireRateBullet = f32 22,
      spacingLaser = f32 40, spacingBullet = f32 20,
      parent = False, orbitRadius = f32 0, orbitAngle = f32 0, score = 0,
      texture_w = tex, scale = scale0, ship_rotation = f32 0\<rparr>"

text \<open>
  The fire rates are set by the constructor and assigned nowhere else: every ship of the
  program has them.
\<close>

definition std_rates :: "ShipObj \<Rightarrow> bool" where
  "std_rates s = (fireRateLaser s = f32 18 \<and> fireRateBullet s = f32 22)"

definition TakeDamage :: "int \<Rightarrow> ShipObj \<Rightarrow> ShipObj" where
  "TakeDamage dmg s =
     (if \<not> alive s then s
      else let s' = s\<lparr>hp := wrap32 (hp s - dmg)\<rparr>
           in if hp s' \<le> 0 then s'\<lparr>alive := False\<rparr> else s')"

definition IsAlive :: "ShipObj \<Rightarrow> bool" where
  "IsAlive s = alive s"

definition GetPosition :: "ShipObj \<Rightarrow> Vector2" where
  "GetPosition s = position (transform s)"

definition GetRadius :: "ShipObj \<Rightarrow> float32" where
  "GetRadius s = fmul (fmul (f32 (texture_w s)) (scale s)) (lit 1 2)"

definition GetRotation :: "ShipObj \<Rightarrow> float32" where
  "GetRotation s = ship_rotation s"

definition GetHP :: "ShipObj \<Rightarrow> int" where
  "GetHP s = hp s"

definition GetFireRate :: "ShipObj \<Rightarrow> WeaponType \<Rightarrow> float32" where
  "GetFireRate s wt = (if wt = LASER then fireRateLaser s else fireRateBullet s)"

definition GetSpacing :: "ShipObj \<Rightarrow> WeaponType \<Rightarrow> float32" where
  "GetSpacing s wt = (if wt = LASER then spacingLaser s else spacingBullet s)"

definition GetScore :: "ShipObj \<Rightarrow> int" where
  "GetScore s = score s"

definition AddScore :: "int \<Rightarrow> ShipObj \<Rightarrow> ShipObj" where
  "AddScore n s = s\<lparr>score := wrap32 (score s + n)\<rparr>"

definition SetParent :: "bool \<Rightarrow> float32 \<Rightarrow> float32 \<Rightarrow> ShipObj \<Rightarrow> ShipObj" where
  "SetParent p radius angle s = s\<lparr>parent := p, orbitRadius := radius, orbitAngle := angle\<rparr>"

text \<open>\<^verbatim>\<open>UpdateOrbit\<close>; \<open>parentPos\<close> is \<^verbatim>\<open>parent->GetPosition()\<close>.\<close>

definition UpdateOrbit :: "platform \<Rightarrow> Vector2 \<Rightarrow> float32 \<Rightarrow> ShipObj \<Rightarrow> ShipObj" where
  "UpdateOrbit P parentPos dt s =
     (if parent s then
        let ang = fadd (orbitAngle s) (fmul dt (f32 1))
        in s\<lparr>orbitAngle := ang,
             transform := (transform s)
               \<lparr>position :=
                  \<lparr>vec_x = fadd (vec_x parentPos) (fmul (orbitRadius s) (cosf P ang)),
                   vec_y = fadd (vec_y parentPos) (fmul (orbitRadius s) (sinf P ang))\<rparr>\<rparr>\<rparr>
      else s)"

text \<open>The keys a frame reads: held ones (\<^verbatim>\<open>IsKeyDown\<close>) and pressed ones (\<^verbatim>\<open>IsKeyPressed\<close>).\<close>

record keys =
  down_W :: bool
  down_S :: bool
  down_A :: bool
  down_D :: bool
  down_Q :: bool
  down_E :: bool
  down_SPACE :: bool
  pressed_R :: bool
  pressed_ONE :: bool
  pressed_TWO :: bool
  pressed_THREE :: bool
  pressed_FOUR :: bool
  pressed_TAB :: bool

definition move_x :: "(float32 \<Rightarrow> float32) \<Rightarrow> ShipObj \<Rightarrow> ShipObj" where
  "move_x f s =
     s\<lparr>transform := (transform s)\<lparr>position := (position (transform s))
        \<lparr>vec_x := f (vec_x (position (transform s)))\<rparr>\<rparr>\<rparr>"

definition move_y :: "(float32 \<Rightarrow> float32) \<Rightarrow> ShipObj \<Rightarrow> ShipObj" where
  "move_y f s =
     s\<lparr>transform := (transform s)\<lparr>position := (position (transform s))
        \<lparr>vec_y := f (vec_y (position (transform s)))\<rparr>\<rparr>\<rparr>"

text \<open>\<^verbatim>\<open>PlayerShip::Update\<close>: the six key tests run in the order of the source.\<close>

definition PlayerShip_Update :: "keys \<Rightarrow> float32 \<Rightarrow> ShipObj \<Rightarrow> ShipObj" where
  "PlayerShip_Update k dt s =
     (if \<not> parent s then
        (if alive s then
           let s1 = (if down_W k then move_y (\<lambda>y. fsub y (fmul (speed s) dt)) s else s);
               s2 = (if down_S k then move_y (\<lambda>y. fadd y (fmul (speed s1) dt)) s1 else s1);
               s3 = (if down_A k then move_x (\<lambda>x. fsub x (fmul (speed s2) dt)) s2 else s2);
               s4 = (if down_D k then move_x (\<lambda>x. fadd x (fmul (speed s3) dt)) s3 else s3);
               s5 = (if down_Q k
                     then s4\<lparr>ship_rotation := fsub (ship_rotation s4) (fmul (f32 180) dt)\<rparr>
                     else s4)
           in (if down_E k
               then s5\<lparr>ship_rotation := fadd (ship_rotation s5) (fmul (f32 180) dt)\<rparr>
               else s5)
         else move_y (\<lambda>y. fadd y (fmul (speed s) dt)) s)
      else s)"

text \<open>
  \<^verbatim>\<open>UpdateOrbiters\<close>: every orbiter is moved on its orbit around this ship, updated, and
  its own orbiters are treated the same way; then the dead orbiters are erased together
  with what they own. \<open>UpdateOrbiters_of pos orbs\<close> is the loop over the orbiters of a
  ship at \<open>pos\<close>.
\<close>

fun UpdateOrbiters_of :: "platform \<Rightarrow> keys \<Rightarrow> float32 \<Rightarrow> Vector2 \<Rightarrow> Ship list \<Rightarrow> Ship list" where
  "UpdateOrbiters_of P k dt pos [] = []"
| "UpdateOrbiters_of P k dt pos (Ship s orbs # rest) =
     (let s' = PlayerShip_Update k dt (UpdateOrbit P pos dt s);
          orbs' = filter (\<lambda>orb. IsAlive (obj orb)) (UpdateOrbiters_of P k dt (GetPosition s') orbs)
      in Ship s' orbs' # UpdateOrbiters_of P k dt pos rest)"

definition UpdateOrbiters :: "platform \<Rightarrow> keys \<Rightarrow> float32 \<Rightarrow> Ship \<Rightarrow> Ship" where
  "UpdateOrbiters P k dt t =
     Ship (obj t)
       (filter (\<lambda>orb. IsAlive (obj orb)) (UpdateOrbiters_of P k dt (GetPosition (obj t)) (orbiters t)))"

text \<open>
  The rotation of a vector by an angle in radians, as raymath's \<^verbatim>\<open>Vector2Rotate\<close> computes
  it. \<^verbatim>\<open>ShootAll\<close> does not call it but writes the same two lines out, as \<open>ShootAll_shot\<close>
  below does; the definition is what a shot's start is compared with.
\<close>

definition Vector2Rotate :: "platform \<Rightarrow> Vector2 \<Rightarrow> float32 \<Rightarrow> Vector2" where
  "Vector2Rotate P v angle =
     \<lparr>vec_x = fsub (fmul (vec_x v) (cosf P angle)) (fmul (vec_y v) (sinf P angle)),
      vec_y = fadd (fmul (vec_x v) (sinf P angle)) (fmul (vec_y v) (cosf P angle))\<rparr>"

text \<open>The projectile one turn of the loop of \<^verbatim>\<open>ShootAll\<close> makes.\<close>

definition ShootAll_shot :: "platform \<Rightarrow> ShipObj \<Rightarrow> WeaponType \<Rightarrow> float32 \<Rightarrow> Projectile" where
  "ShootAll_shot P s currentWeapon projSpeed =
     (let shipPos = GetPosition s;
          rotDeg = GetRotation s;
          rotRad = fmul DEG2RAD rotDeg;
          localOffset = \<lparr>vec_x = f32 0, vec_y = fneg (GetRadius s)\<rparr>;
          rotatedOffset =
            \<lparr>vec_x = fsub (fmul (vec_x localOffset) (cosf P rotRad))
                           (fmul (vec_y localOffset) (sinf P rotRad)),
             vec_y = fadd (fmul (vec_x localOffset) (sinf P rotRad))
                           (fmul (vec_y localOffset) (cosf P rotRad))\<rparr>;
          p = Vector2Add shipPos rotatedOffset
      in MakeProjectile P currentWeapon p projSpeed (GetRotation s))"

text \<open>
  The \<^verbatim>\<open>while (shotTimer >= interval)\<close> loop of \<^verbatim>\<open>ShootAll\<close>. Nothing bounds the
  number of its turns, so it is a partial function: \<open>None\<close> is a loop that does not end.
\<close>

partial_function (option) ShootAll_loop ::
  "platform \<Rightarrow> ShipObj \<Rightarrow> WeaponType \<Rightarrow> float32 \<Rightarrow> float32 \<Rightarrow> Projectile list \<Rightarrow> float32
     \<Rightarrow> (Projectile list \<times> float32) option" where
  "ShootAll_loop P s currentWeapon interval projSpeed projectiles shotTimer =
     (if fge shotTimer interval
      then ShootAll_loop P s currentWeapon interval projSpeed
             (projectiles @ [ShootAll_shot P s currentWeapon projSpeed]) (fsub shotTimer interval)
      else Some (projectiles, shotTimer))"

declare ShootAll_loop.simps [code]

text \<open>
  \<^verbatim>\<open>ShootAll\<close>: the state threaded through the recursion is the projectile list and the
  one \<^verbatim>\<open>shotTimer\<close> that every ship of the tree receives by reference.
\<close>

fun ShootAll :: "platform \<Rightarrow> WeaponType \<Rightarrow> float32 \<Rightarrow> Ship \<Rightarrow> Projectile list \<times> float32
                   \<Rightarrow> (Projectile list \<times> float32) option"
  and ShootAll_orbiters :: "platform \<Rightarrow> WeaponType \<Rightarrow> float32 \<Rightarrow> Ship list
                   \<Rightarrow> Projectile list \<times> float32 \<Rightarrow> (Projectile list \<times> float32) option" where
  "ShootAll P currentWeapon dt (Ship s orbs) st =
     (if \<not> IsAlive s then Some st
      else let shotTimer = fadd (snd st) dt;
               interval = fdiv (f32 1) (GetFireRate s currentWeapon);
               projSpeed = fmul (GetSpacing s currentWeapon) (GetFireRate s currentWeapon)
           in case ShootAll_loop P s currentWeapon interval projSpeed (fst st) shotTimer of
                None \<Rightarrow> None
              | Some st' \<Rightarrow> ShootAll_orbiters P currentWeapon dt orbs st')"
| "ShootAll_orbiters P currentWeapon dt [] st = Some st"
| "ShootAll_orbiters P currentWeapon dt (orb # rest) st =
     (case ShootAll P currentWeapon dt orb st of
        None \<Rightarrow> None
      | Some st' \<Rightarrow> ShootAll_orbiters P currentWeapon dt rest st')"

text \<open>\<^verbatim>\<open>GetAllShips\<close>: the ship, then the ships of each orbiter in turn.\<close>

fun GetAllShips :: "Ship \<Rightarrow> ShipObj list" where
  "GetAllShips (Ship s orbs) = s # concat (map GetAllShips orbs)"

text \<open>
  The list \<^verbatim>\<open>allShips\<close> holds pointers into the tree: what the collision passes write
  through them is written to the ships of the tree. \<open>PutAllShips t ss\<close> is the tree \<open>t\<close>
  with the objects \<open>ss\<close> in the places \<open>GetAllShips\<close> read them from.
\<close>

fun PutShip :: "Ship \<Rightarrow> ShipObj list \<Rightarrow> Ship \<times> ShipObj list"
  and PutShips :: "Ship list \<Rightarrow> ShipObj list \<Rightarrow> Ship list \<times> ShipObj list" where
  "PutShip (Ship s orbs) ss =
     (case ss of
        [] \<Rightarrow> (Ship s orbs, [])
      | s' # rest \<Rightarrow> (let (orbs', rest') = PutShips orbs rest in (Ship s' orbs', rest')))"
| "PutShips [] ss = ([], ss)"
| "PutShips (t # ts) ss =
     (let (t', rest) = PutShip t ss; (ts', rest') = PutShips ts rest in (t' # ts', rest'))"

definition PutAllShips :: "Ship \<Rightarrow> ShipObj list \<Rightarrow> Ship" where
  "PutAllShips t ss = fst (PutShip t ss)"

text \<open>
  \<^verbatim>\<open>TrySpawnOrbiter\<close>. The recursion enters the orbiter it has just made, which no
  size bounds: the first argument is the depth of call stack left, and \<open>None\<close> is a
  recursion that runs out of it.
\<close>

fun TrySpawnOrbiter :: "nat \<Rightarrow> int \<Rightarrow> int \<Rightarrow> int \<Rightarrow> int \<Rightarrow> Ship \<Rightarrow> Ship option" where
  "TrySpawnOrbiter 0 w h scoreThreshold tex t = None"
| "TrySpawnOrbiter (Suc n) w h scoreThreshold tex (Ship s orbs) =
     (let orbs' =
            (if scoreThreshold \<le> score s \<and> orbs = []
             then orbs @ [Ship (SetParent True (fadd (GetRadius s) (f32 60)) (f32 0)
                                  (new_PlayerShip w h tex (lit 18 100))) []]
             else orbs)
      in map_option (Ship s)
           (those (map (TrySpawnOrbiter n w h scoreThreshold tex) orbs')))"

text \<open>
  What \<^verbatim>\<open>TrySpawnOrbiter\<close> is described to do, by recursion over the tree as it was before
  the call: a ship that has reached the threshold and has no orbiter gets one, any other
  ship passes the call on to its orbiters.
\<close>

definition new_orbiter :: "int \<Rightarrow> int \<Rightarrow> int \<Rightarrow> ShipObj \<Rightarrow> ShipObj" where
  "new_orbiter w h tex s =
     SetParent True (fadd (GetRadius s) (f32 60)) (f32 0) (new_PlayerShip w h tex (lit 18 100))"

fun spawn_result :: "int \<Rightarrow> int \<Rightarrow> int \<Rightarrow> int \<Rightarrow> Ship \<Rightarrow> Ship" where
  "spawn_result w h scoreThreshold tex (Ship s orbs) =
     (if scoreThreshold \<le> score s \<and> orbs = []
      then Ship s [Ship (new_orbiter w h tex s) []]
      else Ship s (map (spawn_result w h scoreThreshold tex) orbs))"

text \<open>The number of ships on the longest path from a ship down its tree.\<close>

fun ship_depth :: "Ship \<Rightarrow> nat" where
  "ship_depth (Ship s orbs) = Suc (foldr max (map ship_depth orbs) 0)"

section \<open>Application\<close>

definition C_WIDTH :: int where "C_WIDTH = 1600"
definition C_HEIGHT :: int where "C_HEIGHT = 1600"
definition MAX_AST :: nat where "MAX_AST = 150"
definition C_SPAWN_MIN :: float32 where "C_SPAWN_MIN = lit 5 10"
definition C_SPAWN_MAX :: float32 where "C_SPAWN_MAX = f32 3"
definition SCORE_THRESHOLD :: int where "SCORE_THRESHOLD = 3"

text \<open>
  What \<^verbatim>\<open>Application::Run\<close> keeps from one frame to the next: the members of the
  application and the locals declared before the loop.
\<close>

record Application =
  player :: Ship
  asteroids :: "Asteroid list"
  projectiles :: "Projectile list"
  currentShape :: AsteroidShape
  spawnTimer :: float32
  spawnInterval :: float32
  currentWeapon :: WeaponType
  shotTimer :: float32

text \<open>What one frame reads from outside: the frame time, the keys, the generators.\<close>

record frame_input =
  frame_dt :: float32
  frame_keys :: keys
  restart_draw :: int
  spawn_draw :: int
  asteroid_rand :: asteroid_draws

text \<open>The state before the first frame.\<close>

definition Run_init :: "platform \<Rightarrow> int \<Rightarrow> Application" where
  "Run_init P r =
     \<lparr>player = Ship (new_PlayerShip C_WIDTH C_HEIGHT (texture_width P) (lit 3 10)) [],
      asteroids = [], projectiles = [], currentShape = TRIANGLE,
      spawnTimer = f32 0, spawnInterval = RandomFloat P r C_SPAWN_MIN C_SPAWN_MAX,
      currentWeapon = LASER, shotTimer = f32 0\<rparr>"

subsection \<open>The frame up to the collisions\<close>

text \<open>\<^verbatim>\<open>spawnTimer += dt; player->Update(dt); player->UpdateOrbiters(dt);\<close>\<close>

definition frame_update :: "platform \<Rightarrow> frame_input \<Rightarrow> Application \<Rightarrow> Application" where
  "frame_update P inp g =
     g\<lparr>spawnTimer := fadd (spawnTimer g) (frame_dt inp),
       player := UpdateOrbiters P (frame_keys inp) (frame_dt inp)
                   (Ship (PlayerShip_Update (frame_keys inp) (frame_dt inp) (obj (player g)))
                         (orbiters (player g)))\<rparr>"

text \<open>The restart block: \<^verbatim>\<open>if (!player->IsAlive() && IsKeyPressed(KEY_R)) { ... }\<close>\<close>

definition frame_restart :: "platform \<Rightarrow> frame_input \<Rightarrow> Application \<Rightarrow> Application" where
  "frame_restart P inp g =
     (if \<not> IsAlive (obj (player g)) \<and> pressed_R (frame_keys inp)
      then g\<lparr>player := Ship (new_PlayerShip C_WIDTH C_HEIGHT (texture_width P) (lit 3 10)) [],
             asteroids := [],
             projectiles := [],
             spawnTimer := f32 0,
             spawnInterval := RandomFloat P (restart_draw inp) C_SPAWN_MIN C_SPAWN_MAX\<rparr>
      else g)"

text \<open>The shape keys, then the weapon key.\<close>

definition next_weapon :: "WeaponType \<Rightarrow> WeaponType" where
  "next_weapon w = (case w of LASER \<Rightarrow> BULLET | BULLET \<Rightarrow> LASER | COUNT \<Rightarrow> BULLET)"

definition frame_select :: "frame_input \<Rightarrow> Application \<Rightarrow> Application" where
  "frame_select inp g =
     (let k = frame_keys inp;
          g1 = (if pressed_ONE k then g\<lparr>currentShape := TRIANGLE\<rparr> else g);
          g2 = (if pressed_TWO k then g1\<lparr>currentShape := SQUARE\<rparr> else g1);
          g3 = (if pressed_THREE k then g2\<lparr>currentShape := PENTAGON\<rparr> else g2);
          g4 = (if pressed_FOUR k then g3\<lparr>currentShape := RANDOM\<rparr> else g3)
      in if pressed_TAB k then g4\<lparr>currentWeapon := next_weapon (currentWeapon g4)\<rparr> else g4)"

text \<open>Shooting, or else the reduction of the shot timer.\<close>

definition frame_shoot :: "platform \<Rightarrow> frame_input \<Rightarrow> Application \<Rightarrow> Application option" where
  "frame_shoot P inp g =
     (if IsAlive (obj (player g)) \<and> down_SPACE (frame_keys inp)
      then (case ShootAll P (currentWeapon g) (frame_dt inp) (player g)
                   (projectiles g, shotTimer g) of
              None \<Rightarrow> None
            | Some st \<Rightarrow> Some (g\<lparr>projectiles := fst st, shotTimer := snd st\<rparr>))
      else let maxInterval = fdiv (f32 1) (GetFireRate (obj (player g)) (currentWeapon g))
           in Some (if fgt (shotTimer g) maxInterval
                    then g\<lparr>shotTimer := fmodf (shotTimer g) maxInterval\<rparr> else g))"

text \<open>The asteroid spawn.\<close>

definition frame_spawn :: "platform \<Rightarrow> frame_input \<Rightarrow> Application \<Rightarrow> Application" where
  "frame_spawn P inp g =
     (if fge (spawnTimer g) (spawnInterval g) \<and> length (asteroids g) < MAX_AST
      then g\<lparr>asteroids := asteroids g
                 @ [MakeAsteroid P C_WIDTH C_HEIGHT (currentShape g) (asteroid_rand inp)],
             spawnTimer := f32 0,
             spawnInterval := RandomFloat P (spawn_draw inp) C_SPAWN_MIN C_SPAWN_MAX\<rparr>
      else g)"

text \<open>
  The first \<^verbatim>\<open>remove_if\<close>: every projectile is updated, and erased if the update reports
  that it left the screen.
\<close>

definition update_projectiles :: "Renderer \<Rightarrow> float32 \<Rightarrow> Projectile list \<Rightarrow> Projectile list" where
  "update_projectiles R dt ps =
     map snd (filter (\<lambda>r. \<not> fst r) (map (Projectile_Update R dt) ps))"

subsection \<open>Projectiles against asteroids\<close>

definition projectile_hits :: "Projectile \<Rightarrow> Asteroid \<Rightarrow> bool" where
  "projectile_hits p a =
     flt (Vector2Distance (Projectile_GetPosition p) (Asteroid_GetPosition a))
         (fadd (Projectile_GetRadius p) (Asteroid_GetRadius a))"

text \<open>
  The search for the closest ship: \<open>closest_scan\<close> is the loop over \<^verbatim>\<open>allShips\<close> with its
  two variables \<^verbatim>\<open>minDist\<close> and \<^verbatim>\<open>closest\<close>, the latter as the index of the ship in
  the list extended by the counter \<open>i\<close>.
\<close>

fun closest_scan :: "Vector2 \<Rightarrow> ShipObj list \<Rightarrow> nat \<Rightarrow> float32 \<times> nat option \<Rightarrow> float32 \<times> nat option" where
  "closest_scan pos [] i st = st"
| "closest_scan pos (s # ss) i st =
     (let d = Vector2Distance (GetPosition s) pos
      in closest_scan pos ss (Suc i) (if flt d (fst st) then (d, Some i) else st))"

definition closest_ship :: "Vector2 \<Rightarrow> ShipObj list \<Rightarrow> nat option" where
  "closest_ship pos ss = snd (closest_scan pos ss 0 (f32 1000000000, None))"

definition credit_closest :: "Vector2 \<Rightarrow> ShipObj list \<Rightarrow> ShipObj list" where
  "credit_closest pos ss =
     (case closest_ship pos ss of None \<Rightarrow> ss | Some k \<Rightarrow> ss[k := AddScore 1 (ss ! k)])"

text \<open>
  The inner loop over the asteroids for one projectile: \<open>None\<close> when the loop ends without
  a hit, else the asteroid list with the asteroid that was hit erased.
\<close>

fun asteroid_scan :: "Projectile \<Rightarrow> Asteroid list \<Rightarrow> Asteroid list option" where
  "asteroid_scan p [] = None"
| "asteroid_scan p (a # as) =
     (if projectile_hits p a then Some as else map_option ((#) a) (asteroid_scan p as))"

text \<open>The outer loop over the projectiles.\<close>

fun projectile_pass :: "Projectile list \<Rightarrow> Asteroid list \<Rightarrow> ShipObj list
                          \<Rightarrow> Projectile list \<times> Asteroid list \<times> ShipObj list" where
  "projectile_pass [] as ss = ([], as, ss)"
| "projectile_pass (p # ps) as ss =
     (case asteroid_scan p as of
        None \<Rightarrow> (let r = projectile_pass ps as ss in (p # fst r, snd r))
      | Some as' \<Rightarrow> projectile_pass ps as' (credit_closest (Projectile_GetPosition p) ss))"

subsection \<open>Ships against asteroids\<close>

definition ship_hits :: "ShipObj \<Rightarrow> Asteroid \<Rightarrow> bool" where
  "ship_hits s a =
     flt (Vector2Distance (GetPosition s) (Asteroid_GetPosition a))
         (fadd (GetRadius s) (Asteroid_GetRadius a))"

text \<open>
  The loop over \<^verbatim>\<open>allShips\<close> in the lambda \<^verbatim>\<open>remove_collision\<close>: \<open>None\<close> when it ends
  without a hit, else the ships after the damage.
\<close>

fun ship_scan :: "Asteroid \<Rightarrow> ShipObj list \<Rightarrow> ShipObj list option" where
  "ship_scan a [] = None"
| "ship_scan a (s # ss) =
     (if IsAlive s \<and> ship_hits s a
      then Some (TakeDamage (Asteroid_GetDamage a) s # ss)
      else map_option ((#) s) (ship_scan a ss))"

text \<open>
  The lambda: whether the asteroid is to be removed, the asteroid after the call, the
  ships after the call.
\<close>

definition remove_collision :: "Renderer \<Rightarrow> float32 \<Rightarrow> Asteroid \<Rightarrow> ShipObj list
                                  \<Rightarrow> bool \<times> Asteroid \<times> ShipObj list" where
  "remove_collision R dt a ss =
     (case ship_scan a ss of
        Some ss' \<Rightarrow> (True, a, ss')
      | None \<Rightarrow> (let r = Asteroid_Update R dt a in (\<not> fst r, snd r, ss)))"

text \<open>The second \<^verbatim>\<open>remove_if\<close>: the lambda is applied to the asteroids in list order.\<close>

fun ship_pass :: "Renderer \<Rightarrow> float32 \<Rightarrow> Asteroid list \<Rightarrow> ShipObj list
                    \<Rightarrow> Asteroid list \<times> ShipObj list" where
  "ship_pass R dt [] ss = ([], ss)"
| "ship_pass R dt (a # as) ss =
     (let c = remove_collision R dt a ss;
          r = ship_pass R dt as (snd (snd c))
      in (if fst c then fst r else fst (snd c) # fst r, snd r))"

subsection \<open>The whole frame\<close>

text \<open>
  The collision part of the frame: the update of the projectiles, \<^verbatim>\<open>GetAllShips\<close>, the
  two passes.
\<close>

definition frame_collide :: "frame_input \<Rightarrow> Application \<Rightarrow> Application" where
  "frame_collide inp g =
     (let R = Renderer_Init C_WIDTH C_HEIGHT;
          ps = update_projectiles R (frame_dt inp) (projectiles g);
          allShips = GetAllShips (player g);
          c1 = projectile_pass ps (asteroids g) allShips;
          c2 = ship_pass R (frame_dt inp) (fst (snd c1)) (snd (snd c1))
      in g\<lparr>projectiles := fst c1, asteroids := fst c2,
           player := PutAllShips (player g) (snd c2)\<rparr>)"

definition frame_orbiter :: "platform \<Rightarrow> Application \<Rightarrow> Application option" where
  "frame_orbiter P g =
     map_option (\<lambda>t. g\<lparr>player := t\<rparr>)
       (TrySpawnOrbiter (stack_depth P) C_WIDTH C_HEIGHT SCORE_THRESHOLD (texture_width P)
          (player g))"

text \<open>
  One turn of the loop of \<^verbatim>\<open>Run\<close>, without the drawing: \<open>frame_begin\<close> is the frame
  up to the asteroid spawn, then come the collisions and the orbiter spawn. \<open>None\<close>: the
  frame does not end.
\<close>

definition frame_begin :: "platform \<Rightarrow> frame_input \<Rightarrow> Application \<Rightarrow> Application option" where
  "frame_begin P inp g =
     map_option (frame_spawn P inp)
       (frame_shoot P inp (frame_select inp (frame_restart P inp (frame_update P inp g))))"

definition Run_frame :: "platform \<Rightarrow> frame_input \<Rightarrow> Application \<Rightarrow> Application option" where
  "Run_frame P inp g =
     (case frame_begin P inp g of
        None \<Rightarrow> None
      | Some g' \<Rightarrow> frame_orbiter P (frame_collide inp g'))"

section \<open>Example data\<close>

text \<open>
  A platform for the examples: \<^verbatim>\<open>sinf\<close> and \<^verbatim>\<open>cosf\<close> have their values at the angle 0,
  the only angle the examples take them at; a texture 200 pixels wide.
\<close>

definition P0 :: platform where
  "P0 = \<lparr>sinf = (\<lambda>a. f32 0), cosf = (\<lambda>a. f32 1), RAND_MAX = 2147483647,
          texture_width = 200, stack_depth = 64\<rparr>"

definition no_keys :: keys where
  "no_keys = \<lparr>down_W = False, down_S = False, down_A = False, down_D = False,
               down_Q = False, down_E = False, down_SPACE = False, pressed_R = False,
               pressed_ONE = False, pressed_TWO = False, pressed_THREE = False,
               pressed_FOUR = False, pressed_TAB = False\<rparr>"

definition no_draws :: asteroid_draws where
  "no_draws = \<lparr>size_draw = 0, edge_draw = 0, along_draw = 0, ang_draw = 0, rad_draw = 0,
                speed_draw = 0, spin_draw = 0, rot_draw = 0, shape_draw = 0\<rparr>"

text \<open>A frame of \<open>dt\<close> seconds with the keys \<open>k\<close>.\<close>

definition frame_of :: "float32 \<Rightarrow> keys \<Rightarrow> frame_input" where
  "frame_of dt k = \<lparr>frame_dt = dt, frame_keys = k, restart_draw = 0, spawn_draw = 0,
                     asteroid_rand = no_draws\<rparr>"

text \<open>The root ship as \<^verbatim>\<open>Run\<close> makes it, and the same ship at another place.\<close>

definition root_ship :: ShipObj where
  "root_ship = new_PlayerShip C_WIDTH C_HEIGHT 200 (lit 3 10)"

definition ship_at :: "int \<Rightarrow> int \<Rightarrow> ShipObj" where
  "ship_at px py =
     root_ship\<lparr>transform := \<lparr>position = \<lparr>vec_x = f32 px, vec_y = f32 py\<rparr>, rotation = f32 0\<rparr>\<rparr>"

text \<open>A triangle asteroid of size 1 at \<open>(px, py)\<close> that moves \<open>(vx, vy)\<close> a second.\<close>

definition asteroid_at :: "int \<Rightarrow> int \<Rightarrow> int \<Rightarrow> int \<Rightarrow> Asteroid" where
  "asteroid_at px py vx vy =
     \<lparr>a_transform = \<lparr>position = \<lparr>vec_x = f32 px, vec_y = f32 py\<rparr>, rotation = f32 0\<rparr>,
      a_physics = \<lparr>velocity = \<lparr>vec_x = f32 vx, vec_y = f32 vy\<rparr>, rotationSpeed = f32 50\<rparr>,
      render_size = 1, a_baseDamage = 5, a_class = TriangleAsteroid\<rparr>"

text \<open>A laser projectile at \<open>(px, py)\<close> that moves \<open>(vx, vy)\<close> a second.\<close>

definition laser_at :: "int \<Rightarrow> int \<Rightarrow> int \<Rightarrow> int \<Rightarrow> Projectile" where
  "laser_at px py vx vy =
     new_Projectile \<lparr>vec_x = f32 px, vec_y = f32 py\<rparr> \<lparr>vec_x = f32 vx, vec_y = f32 vy\<rparr> 20 LASER"

text \<open>A game with the given ship tree, asteroids, projectiles and shot timer.\<close>

definition game_of :: "Ship \<Rightarrow> Asteroid list \<Rightarrow> Projectile list \<Rightarrow> float32 \<Rightarrow> Application" where
  "game_of t as ps timer =
     \<lparr>player = t, asteroids = as, projectiles = ps, currentShape = TRIANGLE,
      spawnTimer = f32 0, spawnInterval = f32 3, currentWeapon = LASER, shotTimer = timer\<rparr>"

section \<open>Properties\<close>

subsection \<open>Integers\<close>

lemma wrap32_id: "int32 i \<Longrightarrow> wrap32 i = i"
  by (simp add: wrap32_def int32_def)

lemma int32_wrap32: "int32 (wrap32 i)"
proof -
  have "0 \<le> (i + 2147483648) mod 4294967296" "(i + 2147483648) mod 4294967296 < 4294967296"
    by simp_all
  then show ?thesis
    unfolding wrap32_def int32_def by linarith
qed

subsection \<open>Damage\<close>

text \<open>
  C6, in the form the code satisfies. \<^verbatim>\<open>TakeDamage\<close> leaves a dead
  ship as it is, for every amount. On a
  living ship it stores \<open>hp - dmg\<close> and clears \<open>alive\<close> exactly when the stored value is not
  positive; no other field changes. It never sets \<open>alive\<close>. For an amount that is not
  negative (and a difference that a 32-bit integer holds) the stored value is \<open>hp - dmg\<close>
  itself and \<open>hp\<close> does not grow.
\<close>

theorem TakeDamage_spec:
  "(\<not> alive s \<longrightarrow> TakeDamage dmg s = s)
   \<and> (alive s \<longrightarrow>
        TakeDamage dmg s = s\<lparr>hp := wrap32 (hp s - dmg), alive := (0 < wrap32 (hp s - dmg))\<rparr>)
   \<and> (alive (TakeDamage dmg s) \<longrightarrow> alive s)
   \<and> (0 \<le> dmg \<and> int32 (hp s - dmg) \<longrightarrow>
        hp (TakeDamage dmg s) = (if alive s then hp s - dmg else hp s)
        \<and> hp (TakeDamage dmg s) \<le> hp s)"
  by (auto simp: TakeDamage_def Let_def wrap32_id)

text \<open>
  A new ship takes 20 and lives with 80; it takes 100 and is dead; the dead ship takes 20
  more and is unchanged.
\<close>

theorem TakeDamage_spec_witness:
  "alive (new_PlayerShip 1600 1600 64 (lit 3 10))
   \<and> hp (TakeDamage 20 (new_PlayerShip 1600 1600 64 (lit 3 10))) = 80
   \<and> alive (TakeDamage 20 (new_PlayerShip 1600 1600 64 (lit 3 10)))
   \<and> \<not> alive (TakeDamage 100 (new_PlayerShip 1600 1600 64 (lit 3 10)))
   \<and> TakeDamage 20 (TakeDamage 100 (new_PlayerShip 1600 1600 64 (lit 3 10)))
       = TakeDamage 100 (new_PlayerShip 1600 1600 64 (lit 3 10))"
proof -
  let ?s = "new_PlayerShip 1600 1600 64 (lit 3 10)"
  have a: "alive ?s" and h: "hp ?s = 100"
    by (simp_all add: new_PlayerShip_def)
  have w: "wrap32 80 = 80" "wrap32 0 = 0"
    by (simp_all add: wrap32_def)
  from TakeDamage_spec [of ?s 20] a h w
  have 1: "hp (TakeDamage 20 ?s) = 80" "alive (TakeDamage 20 ?s)"
    by simp_all
  from TakeDamage_spec [of ?s 100] a h w
  have 2: "\<not> alive (TakeDamage 100 ?s)"
    by simp
  from TakeDamage_spec [of "TakeDamage 100 ?s" 20] 2
  have 3: "TakeDamage 20 (TakeDamage 100 ?s) = TakeDamage 100 ?s"
    by simp
  from a 1 2 3 show ?thesis
    by simp
qed

text \<open>C6 as stated fails for a negative amount: a new ship that takes \<open>-1\<close> has 101.\<close>

theorem TakeDamage_negative_counterexample:
  "hp (new_PlayerShip 1600 1600 64 (lit 3 10)) = 100
   \<and> hp (TakeDamage (- 1) (new_PlayerShip 1600 1600 64 (lit 3 10))) = 101"
  by (simp add: TakeDamage_def new_PlayerShip_def wrap32_def Let_def)

subsection \<open>Floating point\<close>

text \<open>
  The arithmetic on some values whose binary32 results are known: \<open>0.1f\<close> is
  \<open>13421773 * 2^-27\<close>, \<open>0.1f + 0.2f\<close> is the float \<open>0.3f\<close>,
  \<open>2^24 + 1\<close> is not a float, \<open>sqrtf(2)\<close> is \<open>11863283 * 2^-23\<close>, and raylib's \<open>PI\<close> and
  \<open>DEG2RAD\<close> are the floats \<open>0x40490FDB\<close> and \<open>0x3C8EFA35\<close>.
\<close>

lemma float32_examples:
  "lit 1 10 = Fin 13421773 (- 27)"
  "fadd (lit 1 10) (lit 2 10) = Fin 10066330 (- 25)"
  "lit 3 10 = Fin 10066330 (- 25)"
  "f32 16777217 = f32 16777216"
  "f32 16777219 = f32 16777220"
  "fsqrt (f32 2) = Fin 11863283 (- 23)"
  "PI = Fin 13176795 (- 22)"
  "DEG2RAD = Fin 9370165 (- 29)"
  "fmul (f32 (2 ^ 100)) (f32 (2 ^ 100)) = PInf"
  "fdiv (f32 1) (f32 0) = PInf"
  "fmodf (lit 1 10) (fdiv (f32 1) (f32 18)) = Fin 11930465 (- 28)"
  by code_simp+

text \<open>The two integer functions under the roundings do what their names say.\<close>

lemma blen_spec: "0 < a \<Longrightarrow> 2 ^ (nat (blen a) - 1) \<le> a \<and> a < 2 ^ nat (blen a) \<and> 0 < blen a"
proof (induction a rule: blen.induct)
  case (1 a)
  show ?case
  proof (cases "a div 2 = 0")
    case True
    with 1(2) have "a = 1" by presburger
    then show ?thesis by (simp add: blen.simps)
  next
    case False
    with 1(2) have p: "0 < a div 2" by presburger
    from 1(1) [OF _ p] 1(2) have ih: "2 ^ (nat (blen (a div 2)) - 1) \<le> a div 2"
        "a div 2 < 2 ^ nat (blen (a div 2))" "0 < blen (a div 2)"
      by auto
    have b: "blen a = 1 + blen (a div 2)"
      using 1(2) by (subst blen.simps) simp
    define k where "k = nat (blen (a div 2)) - 1"
    from ih(3) have n: "nat (blen (a div 2)) = Suc k" "nat (blen a) = Suc (Suc k)"
      unfolding b k_def by (auto simp: nat_add_distrib)
    from ih(1) have l: "2 * 2 ^ k \<le> a"
      unfolding k_def [symmetric] by linarith
    from ih(2) have u: "a < 2 * (2 * 2 ^ k)"
      unfolding n by simp
    have "0 < blen a"
      using ih(3) unfolding b by simp
    with l u show ?thesis
      unfolding n(2) by simp
  qed
qed

lemma isqrt_spec: "0 \<le> n \<Longrightarrow> 0 \<le> isqrt n \<and> isqrt n * isqrt n \<le> n \<and> n < (isqrt n + 1) * (isqrt n + 1)"
proof (induction n rule: isqrt.induct)
  case (1 n)
  show ?case
  proof (cases "n < 4")
    case True
    with 1(2) consider "n = 0" | "n = 1" | "n = 2" | "n = 3" by linarith
    then show ?thesis by cases (simp_all add: isqrt.simps)
  next
    case False
    then have "\<not> n \<le> 0" by simp
    from 1(1) [OF this False] 1(2)
    have ih: "0 \<le> isqrt (n div 4)" "isqrt (n div 4) * isqrt (n div 4) \<le> n div 4"
        "n div 4 < (isqrt (n div 4) + 1) * (isqrt (n div 4) + 1)"
      by auto
    define r where "r = isqrt (n div 4)"
    have e: "isqrt n = (if (2 * r + 1) * (2 * r + 1) \<le> n then 2 * r + 1 else 2 * r)"
      using False unfolding r_def by (subst isqrt.simps) (simp add: Let_def)
    from ih have a: "4 * (r * r) \<le> n" "n < 4 * ((r + 1) * (r + 1))" "0 \<le> r"
      unfolding r_def by linarith+
    show ?thesis
      unfolding e using a by (auto simp: algebra_simps)
  qed
qed

lemma round_fin_0 [simp]: "round_fin 0 e = Fin 0 (- 149)"
  by (simp add: round_fin_def)

lemma f32_0: "f32 0 = Fin 0 (- 149)"
  by (simp add: f32_def)

text \<open>The comparisons of finite values are those of the real numbers they stand for.\<close>

lemma align: "e0 \<le> e \<Longrightarrow> real_of_int (m * 2 ^ nat (e - e0)) = fval m e * 2 powi (- e0)"
proof -
  assume le: "e0 \<le> e"
  have 1: "(2::real) powi (e - e0) = 2 powi e * 2 powi (- e0)"
    using power_int_add [of "2::real" e "- e0"] by simp
  have 2: "(2::real) powi (e - e0) = 2 ^ nat (e - e0)"
    using le by (simp add: power_int_def)
  from 1 2 show ?thesis
    by (simp add: fval_def mult.assoc)
qed

lemma flt_Fin: "flt (Fin a b) (Fin c d) \<longleftrightarrow> fval a b < fval c d"
proof -
  let ?e = "min b d"
  have pos: "(0::real) < 2 powi (- ?e)"
    by simp
  have "real_of_int (a * 2 ^ nat (b - ?e)) < real_of_int (c * 2 ^ nat (d - ?e))
          \<longleftrightarrow> fval a b * 2 powi (- ?e) < fval c d * 2 powi (- ?e)"
    by (simp only: align [of ?e b a] align [of ?e d c] min.cobounded1 min.cobounded2)
  also have "\<dots> \<longleftrightarrow> fval a b < fval c d"
    using pos by (simp only: mult_less_cancel_right_pos)
  finally show ?thesis
    by (simp add: Let_def del: of_int_mult of_int_power)
qed

lemma fle_Fin: "fle (Fin a b) (Fin c d) \<longleftrightarrow> fval a b \<le> fval c d"
proof -
  let ?e = "min b d"
  have pos: "(0::real) < 2 powi (- ?e)"
    by simp
  have "real_of_int (a * 2 ^ nat (b - ?e)) \<le> real_of_int (c * 2 ^ nat (d - ?e))
          \<longleftrightarrow> fval a b * 2 powi (- ?e) \<le> fval c d * 2 powi (- ?e)"
    by (simp only: align [of ?e b a] align [of ?e d c] min.cobounded1 min.cobounded2)
  also have "\<dots> \<longleftrightarrow> fval a b \<le> fval c d"
    using pos by (simp only: mult_le_cancel_right_pos)
  finally show ?thesis
    by (simp add: Let_def del: of_int_mult of_int_power)
qed






text \<open>
  Rounding does not pass a power of two: a value of magnitude at most \<open>2^k\<close> is rounded to
  a finite value of magnitude at most \<open>2^k\<close> and of the same sign. So the sum, the
  difference, the square and the square root of bounded values are bounded.
\<close>

lemma p2_add: "(2::real) powi (a + b) = 2 powi a * 2 powi b"
  by (rule power_int_add) simp

lemma p2_nat: "0 \<le> n \<Longrightarrow> (2::real) powi n = real_of_int (2 ^ nat n)"
  by (simp add: power_int_nonneg_exp)

lemma p2_mono: "a \<le> b \<Longrightarrow> (2::real) powi a \<le> 2 powi b"
proof -
  assume le: "a \<le> b"
  have "(2::real) powi b = 2 powi a * 2 powi (b - a)"
    using p2_add [of a "b - a"] by simp
  moreover have "(1::real) \<le> 2 powi (b - a)"
    using le by (simp add: power_int_nonneg_exp)
  moreover have "(0::real) < 2 powi a"
    by simp
  ultimately show ?thesis
    by (metis mult.right_neutral mult_le_cancel_left_pos)
qed

lemma p2_le_D: "(2::real) powi a \<le> 2 powi b \<Longrightarrow> a \<le> b"
proof (rule ccontr)
  assume le: "(2::real) powi a \<le> 2 powi b" and "\<not> a \<le> b"
  then have lt: "b < a"
    by simp
  have e: "(2::real) powi a = 2 powi b * 2 powi (a - b)"
    using p2_add [of b "a - b"] by simp
  have "a - b = 1 + (a - b - 1)"
    by simp
  then have "(2::real) powi (a - b) = 2 * 2 powi (a - b - 1)"
    using p2_add [of 1 "a - b - 1"] by simp
  moreover have "(1::real) \<le> 2 powi (a - b - 1)"
    using lt by (simp add: power_int_nonneg_exp)
  ultimately have "(1::real) < 2 powi (a - b)"
    by linarith
  moreover have "(0::real) < 2 powi b"
    by simp
  ultimately have "(2::real) powi b * 1 < 2 powi b * 2 powi (a - b)"
    by (simp only: mult_less_cancel_left_pos)
  with e le show False
    by simp
qed

lemma fval_shift: "t \<le> e \<Longrightarrow> fval (m * 2 ^ nat (e - t)) t = fval m e"
proof -
  assume le: "t \<le> e"
  have "fval (m * 2 ^ nat (e - t)) t = (fval m e * 2 powi (- t)) * 2 powi t"
    unfolding fval_def [of "m * 2 ^ nat (e - t)" t] using align [OF le, of m]
    by (simp only:)
  also have "\<dots> = fval m e * (2 powi (- t) * 2 powi t)"
    by (simp only: mult.assoc)
  also have "(2::real) powi (- t) * 2 powi t = 1"
    using p2_add [of "- t" t] by simp
  finally show ?thesis
    by simp
qed

lemma rne_nonneg: "0 \<le> a \<Longrightarrow> 0 \<le> rne a s"
  by (simp add: rne_def Let_def pos_imp_zdiv_nonneg_iff)

lemma rne_le:
  assumes "0 \<le> a" and "a \<le> N * 2 ^ s"
  shows "rne a s \<le> N"
proof -
  have p: "(0::int) < 2 ^ s"
    by simp
  have "a div 2 ^ s \<le> (N * 2 ^ s) div 2 ^ s"
    using assms(2) p by (rule zdiv_mono1)
  then have q: "a div 2 ^ s \<le> N"
    by simp
  show ?thesis
  proof (cases "a div 2 ^ s = N")
    case True
    have "a = 2 ^ s * (a div 2 ^ s) + a mod 2 ^ s"
      by simp
    with True assms(2) have "a mod 2 ^ s \<le> 0"
      by (simp add: mult.commute)
    moreover have "0 \<le> a mod 2 ^ s"
      using p by simp
    ultimately have "a mod 2 ^ s = 0"
      by simp
    with True show ?thesis
      by (simp add: rne_def Let_def)
  next
    case False
    with q have "a div 2 ^ s + 1 \<le> N"
      by simp
    with q show ?thesis
      by (simp add: rne_def Let_def)
  qed
qed

lemma round_core:
  assumes a: "0 < a" and v: "fval a e \<le> 2 powi k" and k: "- 149 \<le> k"
  defines "t \<equiv> max (e + blen a - 24) (- 149)"
  defines "q \<equiv> (if t \<le> e then a * 2 ^ nat (e - t) else rne a (nat (t - e)))"
  shows "0 \<le> q \<and> fval q t \<le> 2 powi k \<and> t \<le> k \<and> (q = 2 ^ 24 \<longrightarrow> t + 24 \<le> k)"
proof -
  from blen_spec [OF a] have L: "2 ^ (nat (blen a) - 1) \<le> a" "0 < blen a"
    by simp_all
  have "(2::real) powi (blen a - 1) = real_of_int (2 ^ nat (blen a - 1))"
    using L(2) by (simp add: p2_nat)
  also have "nat (blen a - 1) = nat (blen a) - 1"
    by simp
  also have "real_of_int (2 ^ (nat (blen a) - 1)) \<le> real_of_int a"
    using L(1) by (simp only: of_int_le_iff)
  finally have l: "(2::real) powi (blen a - 1) \<le> real_of_int a" .
  have "e + blen a - 1 = (blen a - 1) + e"
    by simp
  then have "(2::real) powi (e + blen a - 1) = 2 powi (blen a - 1) * 2 powi e"
    by (simp only: p2_add)
  also have "\<dots> \<le> real_of_int a * 2 powi e"
    using l by (rule mult_right_mono) simp
  also have "\<dots> \<le> 2 powi k"
    using v by (simp add: fval_def)
  finally have "(2::real) powi (e + blen a - 1) \<le> 2 powi k" .
  then have "e + blen a - 1 \<le> k"
    by (rule p2_le_D)
  with k have tk: "t \<le> k"
    unfolding t_def by simp
  have qv: "0 \<le> q \<and> fval q t \<le> 2 powi k"
  proof (cases "t \<le> e")
    case True
    then have "q = a * 2 ^ nat (e - t)"
      by (simp add: q_def)
    with fval_shift [OF True, of a] v a show ?thesis
      by simp
  next
    case False
    then have q: "q = rne a (nat (t - e))"
      by (simp add: q_def)
    have "real_of_int a * 2 powi e * 2 powi (- e) \<le> 2 powi k * 2 powi (- e)"
      using v by (simp add: fval_def mult_right_mono)
    moreover have "(2::real) powi e * 2 powi (- e) = 1"
      using p2_add [of e "- e"] by simp
    ultimately have "real_of_int a \<le> 2 powi (k - e)"
      using p2_add [of k "- e"] by (simp add: mult.assoc)
    also have "(2::real) powi (k - e) = real_of_int (2 ^ nat (k - e))"
      using tk False by (simp add: p2_nat)
    finally have "a \<le> 2 ^ nat (k - e)"
      by (simp only: of_int_le_iff)
    moreover have "nat (k - e) = nat (k - t) + nat (t - e)"
      using tk False by simp
    ultimately have "a \<le> 2 ^ nat (k - t) * 2 ^ nat (t - e)"
      by (simp add: power_add)
    with a have "rne a (nat (t - e)) \<le> 2 ^ nat (k - t)"
      by (intro rne_le) simp_all
    then have "real_of_int q \<le> real_of_int (2 ^ nat (k - t))"
      unfolding q by (simp only: of_int_le_iff)
    also have "real_of_int (2 ^ nat (k - t)) = 2 powi (k - t)"
      using tk by (simp add: p2_nat)
    finally have "real_of_int q * 2 powi t \<le> 2 powi (k - t) * 2 powi t"
      by (simp add: mult_right_mono)
    also have "(2::real) powi (k - t) * 2 powi t = 2 powi k"
      using p2_add [of "k - t" t] by simp
    finally have "fval q t \<le> 2 powi k"
      by (simp add: fval_def)
    moreover have "0 \<le> q"
      unfolding q using a by (intro rne_nonneg) simp
    ultimately show ?thesis
      by simp
  qed
  have "q = 2 ^ 24 \<longrightarrow> t + 24 \<le> k"
  proof
    assume "q = 2 ^ 24"
    then have "fval q t = 2 powi 24 * 2 powi t"
      by (simp add: fval_def)
    also have "\<dots> = 2 powi (t + 24)"
      using p2_add [of 24 t] by (simp add: add.commute)
    finally show "t + 24 \<le> k"
      using qv by (intro p2_le_D) simp
  qed
  with qv tk show ?thesis
    by simp
qed

lemma fval_sign: "0 \<le> fval m e \<longleftrightarrow> 0 \<le> m"
proof -
  have "(0::real) < 2 powi e"
    by simp
  then show ?thesis
    by (simp add: fval_def zero_le_mult_iff less_le_not_le)
qed

lemma fval_abs: "fval \<bar>m\<bar> e = \<bar>fval m e\<bar>"
  by (simp add: fval_def abs_mult)

lemma fval_minus: "fval (- m) e = - fval m e"
  by (simp add: fval_def)

lemma round_fin_Fin:
  assumes k: "- 149 \<le> k" "k \<le> 104" and v: "\<bar>fval m e\<bar> \<le> 2 powi k"
  shows "\<exists>q t. round_fin m e = Fin (if m < 0 then - q else q) t \<and> 0 \<le> q \<and> fval q t \<le> 2 powi k"
proof (cases "m = 0")
  case True
  have "fval 0 (- 149) \<le> 2 powi k"
    by (simp add: fval_def)
  with True show ?thesis
    by (intro exI [of _ 0] exI [of _ "- 149"]) simp
next
  case False
  define a where "a = \<bar>m\<bar>"
  define t where "t = max (e + blen a - 24) (- 149)"
  define q where "q = (if t \<le> e then a * 2 ^ nat (e - t) else rne a (nat (t - e)))"
  have a: "0 < a"
    using False by (simp add: a_def)
  have "fval a e \<le> 2 powi k"
    using v by (simp add: a_def fval_abs)
  from round_core [OF a this k(1)]
  have c: "0 \<le> q" "fval q t \<le> 2 powi k" "t \<le> k" "q = 2 ^ 24 \<longrightarrow> t + 24 \<le> k"
    unfolding q_def t_def by simp_all
  define q' where "q' = (if q = 2 ^ 24 then 2 ^ 23 else q)"
  define t' where "t' = (if q = 2 ^ 24 then t + 1 else t)"
  have r: "round_fin m e = (if 104 < t' then (if m < 0 then NInf else PInf)
                            else Fin (if m < 0 then - q' else q') t')"
    using False unfolding round_fin_def q'_def t'_def q_def t_def a_def
    by (simp add: Let_def)
  have t': "\<not> 104 < t'"
    using c(3,4) k(2) by (auto simp: t'_def)
  have "fval q' t' = fval q t"
  proof (cases "q = 2 ^ 24")
    case True
    have "fval (2 ^ 23) (t + 1) = fval (2 ^ 24) t"
      using p2_add [of t 1] by (simp add: fval_def)
    with True show ?thesis
      by (simp add: q'_def t'_def)
  next
    case False
    then show ?thesis
      by (simp add: q'_def t'_def)
  qed
  moreover have "0 \<le> q'"
    using c(1) by (simp add: q'_def)
  ultimately show ?thesis
    using r t' c(2) by (intro exI [of _ q'] exI [of _ t']) simp
qed

lemma round_fin_between:
  assumes "- 149 \<le> k" "k \<le> 104" "\<bar>fval m e\<bar> \<le> 2 powi k"
  shows "fin_between (- (2 powi k)) (2 powi k) (round_fin m e)"
    and "0 \<le> m \<Longrightarrow> fin_between 0 (2 powi k) (round_fin m e)"
proof -
  from round_fin_Fin [OF assms] obtain q t where
    r: "round_fin m e = Fin (if m < 0 then - q else q) t" "0 \<le> q" "fval q t \<le> 2 powi k"
    by blast
  from r(2) have p: "0 \<le> fval q t"
    by (simp add: fval_sign)
  from r p show "fin_between (- (2 powi k)) (2 powi k) (round_fin m e)"
    by (simp add: fin_between_def fval_minus)
  from r p show "0 \<le> m \<Longrightarrow> fin_between 0 (2 powi k) (round_fin m e)"
    by (simp add: fin_between_def)
qed

lemma fval_sum:
  "fval (m1 * 2 ^ nat (e1 - min e1 e2) + m2 * 2 ^ nat (e2 - min e1 e2)) (min e1 e2)
     = fval m1 e1 + fval m2 e2"
proof -
  let ?e = "min e1 e2"
  have "fval (m1 * 2 ^ nat (e1 - ?e) + m2 * 2 ^ nat (e2 - ?e)) ?e
          = fval (m1 * 2 ^ nat (e1 - ?e)) ?e + fval (m2 * 2 ^ nat (e2 - ?e)) ?e"
    by (simp add: fval_def distrib_right)
  then show ?thesis
    by (simp only: fval_shift [of ?e e1 m1] fval_shift [of ?e e2 m2]
        min.cobounded1 min.cobounded2)
qed

lemma fneg_between:
  "fin_between (- b) b x \<Longrightarrow> fin_between (- b) b (fneg x)"
  by (cases x) (auto simp: fin_between_def fval_minus)

lemma fadd_between:
  assumes x: "fin_between (- (2 powi a)) (2 powi a) x"
    and y: "fin_between (- (2 powi b)) (2 powi b) y"
    and k: "a < k" "b < k" "- 149 \<le> k" "k \<le> 104"
  shows "fin_between (- (2 powi k)) (2 powi k) (fadd x y)"
proof -
  from x obtain m1 e1 where x1: "x = Fin m1 e1" "\<bar>fval m1 e1\<bar> \<le> 2 powi a"
    by (cases x) (auto simp: fin_between_def)
  from y obtain m2 e2 where y1: "y = Fin m2 e2" "\<bar>fval m2 e2\<bar> \<le> 2 powi b"
    by (cases y) (auto simp: fin_between_def)
  have "(2::real) powi a \<le> 2 powi (k - 1)" "(2::real) powi b \<le> 2 powi (k - 1)"
    using k by (simp_all add: p2_mono)
  moreover have "(2::real) powi k = 2 * 2 powi (k - 1)"
    using p2_add [of 1 "k - 1"] by simp
  ultimately have "\<bar>fval m1 e1 + fval m2 e2\<bar> \<le> 2 powi k"
    using x1(2) y1(2) by linarith
  then have "\<bar>fval (m1 * 2 ^ nat (e1 - min e1 e2) + m2 * 2 ^ nat (e2 - min e1 e2)) (min e1 e2)\<bar>
               \<le> 2 powi k"
    by (simp only: fval_sum)
  from round_fin_between(1) [OF k(3) k(4) this] show ?thesis
    by (simp add: x1(1) y1(1) Let_def)
qed

lemma fsub_between:
  assumes "fin_between (- (2 powi a)) (2 powi a) x"
    and "fin_between (- (2 powi b)) (2 powi b) y"
    and "a < k" "b < k" "- 149 \<le> k" "k \<le> 104"
  shows "fin_between (- (2 powi k)) (2 powi k) (fsub x y)"
  unfolding fsub_def using assms(1) fneg_between [OF assms(2)] assms(3-6)
  by (rule fadd_between)

lemma fadd_between_pos:
  assumes x: "fin_between 0 (2 powi a) x" and y: "fin_between 0 (2 powi a) y"
    and k: "- 149 \<le> a + 1" "a + 1 \<le> 104"
  shows "fin_between 0 (2 powi (a + 1)) (fadd x y)"
proof -
  from x obtain m1 e1 where x1: "x = Fin m1 e1" "0 \<le> fval m1 e1" "fval m1 e1 \<le> 2 powi a"
    by (cases x) (auto simp: fin_between_def)
  from y obtain m2 e2 where y1: "y = Fin m2 e2" "0 \<le> fval m2 e2" "fval m2 e2 \<le> 2 powi a"
    by (cases y) (auto simp: fin_between_def)
  let ?M = "m1 * 2 ^ nat (e1 - min e1 e2) + m2 * 2 ^ nat (e2 - min e1 e2)"
  have "(2::real) powi (a + 1) = 2 * 2 powi a"
    using p2_add [of 1 a] by (simp add: add.commute)
  with x1 y1 have "\<bar>fval m1 e1 + fval m2 e2\<bar> \<le> 2 powi (a + 1)"
    by linarith
  then have b: "\<bar>fval ?M (min e1 e2)\<bar> \<le> 2 powi (a + 1)"
    by (simp only: fval_sum)
  have "0 \<le> fval ?M (min e1 e2)"
    unfolding fval_sum using x1(2) y1(2) by simp
  then have "0 \<le> ?M"
    by (simp only: fval_sign)
  from round_fin_between(2) [OF k b this] show ?thesis
    by (simp add: x1(1) y1(1) Let_def)
qed

lemma fmul_self_between:
  assumes x: "fin_between (- (2 powi a)) (2 powi a) x" and k: "- 149 \<le> 2 * a" "2 * a \<le> 104"
  shows "fin_between 0 (2 powi (2 * a)) (fmul x x)"
proof -
  from x obtain m e where x1: "x = Fin m e" "\<bar>fval m e\<bar> \<le> 2 powi a"
    by (cases x) (auto simp: fin_between_def)
  have "fval (m * m) (e + e) = fval m e * fval m e"
    using p2_add [of e e] by (simp add: fval_def)
  also have "\<dots> = \<bar>fval m e\<bar> * \<bar>fval m e\<bar>"
    by simp
  also have "\<dots> \<le> 2 powi a * 2 powi a"
    using x1(2) by (intro mult_mono) simp_all
  also have "\<dots> = 2 powi (2 * a)"
    using p2_add [of a a] by simp
  finally have "fval (m * m) (e + e) \<le> 2 powi (2 * a)" .
  moreover have "0 \<le> m * m"
    by simp
  moreover from this have "0 \<le> fval (m * m) (e + e)"
    by (simp only: fval_sign)
  ultimately have "\<bar>fval (m * m) (e + e)\<bar> \<le> 2 powi (2 * a)"
    by simp
  from round_fin_between(2) [OF k this \<open>0 \<le> m * m\<close>] show ?thesis
    by (simp add: x1(1))
qed

lemma fin_between_mono:
  "fin_between lo hi x \<Longrightarrow> lo' \<le> lo \<Longrightarrow> hi \<le> hi' \<Longrightarrow> fin_between lo' hi' x"
  by (cases x) (auto simp: fin_between_def)

lemma fsqrt_between:
  assumes x: "fin_between 0 (2 powi (2 * c)) x" and k: "- 149 \<le> c" "c \<le> 104"
  shows "fin_between 0 (2 powi c) (fsqrt x)"
proof -
  from x obtain m e where x1: "x = Fin m e" "0 \<le> m" "fval m e \<le> 2 powi (2 * c)"
    by (cases x) (auto simp: fin_between_def fval_sign)
  show ?thesis
  proof (cases "m = 0")
    case True
    then show ?thesis
      by (simp add: x1(1) fin_between_def fval_def)
  next
    case False
    with x1(2) have m: "0 < m"
      by simp
    define k0 :: int where "k0 = (if even e then 52 else 53)"
    define A where "A = m * 2 ^ nat k0"
    define s where "s = isqrt A"
    define st :: int where "st = (if s * s = A then 0 else 1)"
    define E where "E = (e - k0) div 2"
    have r: "fsqrt x = round_fin (2 * s + st) (E - 1)"
      using False m unfolding x1(1) k0_def A_def s_def st_def E_def
      by (simp add: Let_def)
    have ev: "e - k0 = 2 * E"
      unfolding E_def k0_def by (cases "even e") auto
    have k0: "0 \<le> k0"
      by (simp add: k0_def)
    have A1: "1 \<le> A"
    proof -
      have "1 * 1 \<le> m * 2 ^ nat k0"
        using m by (intro mult_mono) simp_all
      then show ?thesis
        by (simp add: A_def)
    qed
    have "fval A (e - k0) = fval m e"
      using fval_shift [of "e - k0" e m] k0 by (simp add: A_def)
    with x1(3) have "real_of_int A * 2 powi (2 * E) \<le> 2 powi (2 * c)"
      by (simp add: fval_def ev)
    then have "real_of_int A * 2 powi (2 * E) * 2 powi (- (2 * E)) \<le> 2 powi (2 * c) * 2 powi (- (2 * E))"
      by (intro mult_right_mono) simp_all
    moreover have "(2::real) powi (2 * E) * 2 powi (- (2 * E)) = 1"
      using p2_add [of "2 * E" "- (2 * E)"] by simp
    moreover have "(2::real) powi (2 * c) * 2 powi (- (2 * E)) = 2 powi (2 * (c - E))"
      using p2_add [of "2 * c" "- (2 * E)"] by (simp add: algebra_simps)
    ultimately have Ar: "real_of_int A \<le> 2 powi (2 * (c - E))"
      by (simp add: mult.assoc)
    have "(2::real) powi 0 \<le> real_of_int A"
      using A1 by simp
    with Ar have "(2::real) powi 0 \<le> 2 powi (2 * (c - E))"
      by linarith
    then have d: "0 \<le> c - E"
      using p2_le_D [of 0 "2 * (c - E)"] by simp
    define D :: int where "D = 2 ^ nat (c - E)"
    have "(2::real) powi (2 * (c - E)) = real_of_int (2 ^ nat (2 * (c - E)))"
      using d by (simp add: p2_nat)
    also have "nat (2 * (c - E)) = nat (c - E) + nat (c - E)"
      using d by simp
    also have "(2::int) ^ (nat (c - E) + nat (c - E)) = D * D"
      by (simp add: D_def power_add)
    finally have "real_of_int A \<le> real_of_int (D * D)"
      using Ar by simp
    then have AD: "A \<le> D * D"
      by (simp only: of_int_le_iff)
    have D0: "0 < D"
      by (simp add: D_def)
    from isqrt_spec [of A] A1 have s: "0 \<le> s" "s * s \<le> A"
      by (simp_all add: s_def)
    have sD: "s \<le> D"
    proof (rule ccontr)
      assume "\<not> s \<le> D"
      then have "D + 1 \<le> s"
        by simp
      then have "(D + 1) * (D + 1) \<le> s * s"
        using D0 by (intro mult_mono) simp_all
      with s(2) AD have "(D + 1) * (D + 1) \<le> D * D"
        by linarith
      with D0 show False
        by (simp add: algebra_simps)
    qed
    have b: "2 * s + st \<le> 2 * D"
    proof (cases "s = D")
      case True
      with s(2) AD have "s * s = A"
        by simp
      with True show ?thesis
        by (simp add: st_def)
    next
      case False
      with sD have "s + 1 \<le> D"
        by simp
      then show ?thesis
        by (simp add: st_def)
    qed
    have n: "0 \<le> 2 * s + st"
      using s(1) by (simp add: st_def)
    have "fval (2 * s + st) (E - 1) \<le> fval (2 * D) (E - 1)"
      unfolding fval_def using b by (intro mult_right_mono) simp_all
    also have "fval (2 * D) (E - 1) = 2 powi 1 * 2 powi (c - E) * 2 powi (E - 1)"
      using d by (simp add: fval_def D_def p2_nat)
    also have "\<dots> = 2 powi (1 + (c - E) + (E - 1))"
      by (simp only: p2_add)
    also have "1 + (c - E) + (E - 1) = c"
      by simp
    finally have "fval (2 * s + st) (E - 1) \<le> 2 powi c" .
    moreover have "0 \<le> fval (2 * s + st) (E - 1)"
      using n by (simp only: fval_sign)
    ultimately have "\<bar>fval (2 * s + st) (E - 1)\<bar> \<le> 2 powi c"
      by simp
    from round_fin_between(2) [OF k this n] show ?thesis
      by (simp only: r)
  qed
qed

text \<open>The two firing intervals, \<open>1/18\<close> and \<open>1/22\<close> rounded, and what the loop computes from them.\<close>

lemma interval_18: "fdiv (f32 1) (f32 18) = Fin 14913081 (- 28)"
  by code_simp

lemma interval_22: "fdiv (f32 1) (f32 22) = Fin 12201612 (- 28)"
  by code_simp

lemma twice_18: "fmul (f32 2) (Fin 14913081 (- 28)) = Fin 14913081 (- 27)"
  by code_simp

lemma twice_22: "fmul (f32 2) (Fin 12201612 (- 28)) = Fin 12201612 (- 27)"
  by code_simp

lemma drain_18:
  "fge (Fin 14913081 (- 27)) (Fin 14913081 (- 28))"
  "fsub (Fin 14913081 (- 27)) (Fin 14913081 (- 28)) = Fin 14913081 (- 28)"
  "fge (Fin 14913081 (- 28)) (Fin 14913081 (- 28))"
  "fsub (Fin 14913081 (- 28)) (Fin 14913081 (- 28)) = Fin 0 (- 149)"
  "\<not> fge (Fin 0 (- 149)) (Fin 14913081 (- 28))"
  "flt (Fin 0 (- 149)) (Fin 14913081 (- 28))"
  by code_simp+

lemma drain_22:
  "fge (Fin 12201612 (- 27)) (Fin 12201612 (- 28))"
  "fsub (Fin 12201612 (- 27)) (Fin 12201612 (- 28)) = Fin 12201612 (- 28)"
  "fge (Fin 12201612 (- 28)) (Fin 12201612 (- 28))"
  "fsub (Fin 12201612 (- 28)) (Fin 12201612 (- 28)) = Fin 0 (- 149)"
  "\<not> fge (Fin 0 (- 149)) (Fin 12201612 (- 28))"
  "flt (Fin 0 (- 149)) (Fin 12201612 (- 28))"
  by code_simp+

lemma zero_plus_zero: "fadd (Fin 0 (- 149)) (Fin 0 (- 149)) = Fin 0 (- 149)"
  by simp

lemma interval_cases:
  "std_rates s \<Longrightarrow>
     fdiv (f32 1) (GetFireRate s w) = Fin 14913081 (- 28)
     \<or> fdiv (f32 1) (GetFireRate s w) = Fin 12201612 (- 28)"
  by (auto simp: std_rates_def GetFireRate_def interval_18 interval_22)

text \<open>
  A timer of \<open>2^21\<close> seconds is too large for the laser's interval to change it: the
  difference rounds back to the timer.
\<close>

lemma stuck_2097152:
  "fge (f32 2097152) (fdiv (f32 1) (f32 18))"
  "fsub (f32 2097152) (fdiv (f32 1) (f32 18)) = f32 2097152"
  "fadd (f32 0) (f32 2097152) = f32 2097152"
  by code_simp+

subsection \<open>The firing loop\<close>

lemma ShootAll_loop_done:
  "\<not> fge t i \<Longrightarrow> ShootAll_loop P s w i v ps t = Some (ps, t)"
  by (subst ShootAll_loop.simps) simp

lemma ShootAll_loop_step:
  "fge t i \<Longrightarrow>
     ShootAll_loop P s w i v ps t
       = ShootAll_loop P s w i v (ps @ [ShootAll_shot P s w v]) (fsub t i)"
  by (subst ShootAll_loop.simps) simp

lemma ShootAll_loop_two:
  assumes "fge t i" "fge (fsub t i) i" "\<not> fge (fsub (fsub t i) i) i"
  shows "ShootAll_loop P s w i v ps t
           = Some (ps @ [ShootAll_shot P s w v, ShootAll_shot P s w v], fsub (fsub t i) i)"
  using assms by (simp add: ShootAll_loop_step ShootAll_loop_done)

text \<open>A loop whose subtraction does not change the timer returns nothing.\<close>

lemma ShootAll_loop_never:
  assumes run: "ShootAll_loop P s w i v ps t = Some y"
  shows "\<not> (fge t i \<and> fsub t i = t)"
proof -
  let ?Q = "\<lambda>x (y :: Projectile list \<times> float32).
              \<not> (fge (snd x) (snd (fst (fst (fst x))))
                 \<and> fsub (snd x) (snd (fst (fst (fst x)))) = snd x)"
  have "?Q ((((((P, s), w), i), v), ps), t) y"
  proof (rule ShootAll_loop.raw_induct [OF _ run])
    fix f P s w i v ps t y
    assume IH: "\<And>P s w i v ps t y. f P s w i v ps t = Some y \<Longrightarrow>
                  ?Q ((((((P, s), w), i), v), ps), t) y"
      and step: "(if fge t i then f P s w i v (ps @ [ShootAll_shot P s w v]) (fsub t i)
                  else Some (ps, t)) = Some y"
    show "?Q ((((((P, s), w), i), v), ps), t) y"
    proof
      assume "fge (snd ((((((P, s), w), i), v), ps), t))
                  (snd (fst (fst (fst ((((((P, s), w), i), v), ps), t)))))
              \<and> fsub (snd ((((((P, s), w), i), v), ps), t))
                      (snd (fst (fst (fst ((((((P, s), w), i), v), ps), t)))))
                = snd ((((((P, s), w), i), v), ps), t)"
      then have e: "fge t i" "fsub t i = t"
        by simp_all
      with step have "f P s w i v (ps @ [ShootAll_shot P s w v]) t = Some y"
        by simp
      from IH [OF this] e show False
        by simp
    qed
  qed
  then show ?thesis
    by simp
qed

lemma ShootAll_loop_stuck:
  assumes "fge t i" and "fsub t i = t"
  shows "ShootAll_loop P s w i v ps t = None"
proof (cases "ShootAll_loop P s w i v ps t")
  case None
  then show ?thesis .
next
  case (Some y)
  from ShootAll_loop_never [OF Some] assms show ?thesis
    by simp
qed

text \<open>With no time added to a timer at \<open>0\<close>, no ship of a tree fires.\<close>

lemma ShootAll_idle:
  "(\<forall>s\<in>set (GetAllShips t). std_rates s) \<longrightarrow>
     ShootAll P w (f32 0) t (ps, f32 0) = Some (ps, f32 0)"
  "(\<forall>s\<in>set (concat (map GetAllShips ts)). std_rates s) \<longrightarrow>
     ShootAll_orbiters P w (f32 0) ts (ps, f32 0) = Some (ps, f32 0)"
proof (induction P w "f32 0" t "(ps, f32 0)" and P w "f32 0" ts "(ps, f32 0)"
        rule: ShootAll_ShootAll_orbiters.induct)
  case (1 P w s orbs)
  show ?case
  proof
    assume a: "\<forall>s\<in>set (GetAllShips (Ship s orbs)). std_rates s"
    then have s: "std_rates s"
      by simp
    show "ShootAll P w (f32 0) (Ship s orbs) (ps, f32 0) = Some (ps, f32 0)"
    proof (cases "IsAlive s")
      case False
      then show ?thesis
        by simp
    next
      case True
      have l: "ShootAll_loop P s w (fdiv (f32 1) (GetFireRate s w)) v ps (Fin 0 (- 149))
                 = Some (ps, Fin 0 (- 149))" for v
        using interval_cases [OF s, of w]
        by (auto intro!: ShootAll_loop_done simp: drain_18 drain_22)
      from a have "\<forall>s\<in>set (concat (map GetAllShips orbs)). std_rates s"
        by simp
      with 1 True l show ?thesis
        by (simp add: f32_0 Let_def)
    qed
  qed
next
  case (2 P w)
  then show ?case
    by simp
next
  case (3 P w orb rest)
  then show ?case
    by auto
qed

subsection \<open>Firing\<close>

lemma ShootAll_alive:
  "IsAlive s \<Longrightarrow>
     ShootAll P w dt (Ship s orbs) (ps, t)
       = (case ShootAll_loop P s w (fdiv (f32 1) (GetFireRate s w))
                 (fmul (GetSpacing s w) (GetFireRate s w)) ps (fadd t dt) of
            None \<Rightarrow> None
          | Some st \<Rightarrow> ShootAll_orbiters P w dt orbs st)"
  by (simp add: Let_def)

lemma PlayerShip_Update_idle:
  "\<not> down_W k \<Longrightarrow> \<not> down_S k \<Longrightarrow> \<not> down_A k \<Longrightarrow> \<not> down_D k \<Longrightarrow> \<not> down_Q k
     \<Longrightarrow> \<not> down_E k \<Longrightarrow> alive s \<Longrightarrow> PlayerShip_Update k dt s = s"
  by (simp add: PlayerShip_Update_def)

lemma ShootAll_dead: "\<not> IsAlive s \<Longrightarrow> ShootAll P w dt (Ship s orbs) st = Some st"
  by simp

text \<open>
  C10 fails on the code. With the fire key held, a frame time of \<open>2^21\<close> seconds (some 24
  days) brings the shot timer of a new game to \<open>2097152\<close>; the laser's interval is less than
  half the distance to the next smaller binary32 value, \<open>shotTimer - interval\<close> rounds back
  to \<open>shotTimer\<close>, and the loop of \<^verbatim>\<open>ShootAll\<close> pushes projectiles without end: the call
  does not return, and neither does the frame.
\<close>

theorem ShootAll_timer_absorbed:
  "ShootAll P LASER (f32 2097152) (Ship (new_PlayerShip w h tex sc) orbs) (ps, f32 0) = None
   \<and> Run_frame P (frame_of (f32 2097152) (no_keys\<lparr>down_SPACE := True\<rparr>)) (Run_init P r) = None"
proof
  let ?s = "new_PlayerShip w h tex sc"
  have a: "IsAlive ?s"
    by (simp add: IsAlive_def new_PlayerShip_def)
  have i: "fdiv (f32 1) (GetFireRate ?s LASER) = fdiv (f32 1) (f32 18)"
    by (simp add: GetFireRate_def new_PlayerShip_def)
  have "ShootAll_loop P ?s LASER (fdiv (f32 1) (f32 18)) v ps (f32 2097152) = None" for v
    by (rule ShootAll_loop_stuck) (rule stuck_2097152)+
  then show "ShootAll P LASER (f32 2097152) (Ship ?s orbs) (ps, f32 0) = None"
    by (simp only: ShootAll_alive [OF a] i stuck_2097152 option.case)
next
  let ?k = "no_keys\<lparr>down_SPACE := True\<rparr>"
  let ?s = "new_PlayerShip C_WIDTH C_HEIGHT (texture_width P) (lit 3 10)"
  let ?g = "frame_select (frame_of (f32 2097152) ?k)
              (frame_restart P (frame_of (f32 2097152) ?k)
                 (frame_update P (frame_of (f32 2097152) ?k) (Run_init P r)))"
  have u: "PlayerShip_Update ?k dt ?s = ?s" for dt
    by (rule PlayerShip_Update_idle) (simp_all add: new_PlayerShip_def no_keys_def)
  have a: "IsAlive ?s"
    by (simp add: IsAlive_def new_PlayerShip_def)
  have fu: "frame_update P (frame_of (f32 2097152) ?k) (Run_init P r)
              = (Run_init P r)\<lparr>spawnTimer := fadd (f32 0) (f32 2097152)\<rparr>"
    by (simp add: frame_update_def Run_init_def UpdateOrbiters_def
        frame_of_def u GetPosition_def)
  have g: "player ?g = Ship ?s [] \<and> projectiles ?g = [] \<and> shotTimer ?g = f32 0
           \<and> currentWeapon ?g = LASER"
    unfolding fu using a
    by (simp add: frame_select_def frame_restart_def Run_init_def
        frame_of_def no_keys_def Let_def)
  have i: "fdiv (f32 1) (GetFireRate ?s LASER) = fdiv (f32 1) (f32 18)"
    by (simp add: GetFireRate_def new_PlayerShip_def)
  have l: "ShootAll_loop P ?s LASER (fdiv (f32 1) (f32 18)) v [] (f32 2097152) = None" for v
    by (rule ShootAll_loop_stuck) (rule stuck_2097152)+
  have "ShootAll P LASER (f32 2097152) (Ship ?s []) ([], f32 0) = None"
    by (simp only: ShootAll_alive [OF a] i l stuck_2097152 option.case)
  with g a have "frame_shoot P (frame_of (f32 2097152) ?k) ?g = None"
    by (simp add: frame_shoot_def frame_of_def no_keys_def)
  then show "Run_frame P (frame_of (f32 2097152) ?k) (Run_init P r) = None"
    by (simp add: Run_frame_def frame_begin_def)
qed

text \<open>
  C4, in the form the code satisfies. A living ship with the constructor's fire rates is
  called with a timer
  and a \<open>dt\<close> that add up to twice the interval of the current weapon. Its own loop makes
  exactly two projectiles and leaves the timer at \<open>0\<close>, which lies in \<open>[0, interval)\<close>; with
  these the call goes on to the orbiters. So the whole call returns exactly the two
  projectiles and the timer \<open>0\<close> when the ship has no orbiter, and also when \<open>dt = 0\<close> (the
  orbiters have the constructor's rates): an orbiter adds \<open>dt\<close> to the same timer again
  and fires if that reaches the interval. Each projectile starts at the ship's position
  plus the offset \<open>(0, - radius)\<close> rotated by the ship's rotation, and its velocity is the
  direction of that rotation scaled by \<open>spacing * fireRate\<close>.
\<close>

theorem ShootAll_two_shots:
  assumes alive: "IsAlive s" and rates: "std_rates s"
    and acc: "fadd t dt = fmul (f32 2) (fdiv (f32 1) (GetFireRate s w))"
  shows "let i = fdiv (f32 1) (GetFireRate s w);
             v = fmul (GetSpacing s w) (GetFireRate s w);
             a = fmul DEG2RAD (GetRotation s);
             shot = ShootAll_shot P s w v
         in ShootAll P w dt (Ship s orbs) (ps, t)
              = ShootAll_orbiters P w dt orbs (ps @ [shot, shot], f32 0)
            \<and> (orbs = [] \<longrightarrow>
                 ShootAll P w dt (Ship s orbs) (ps, t) = Some (ps @ [shot, shot], f32 0))
            \<and> (dt = f32 0 \<and> (\<forall>c\<in>set (concat (map GetAllShips orbs)). std_rates c) \<longrightarrow>
                 ShootAll P w dt (Ship s orbs) (ps, t) = Some (ps @ [shot, shot], f32 0))
            \<and> fle (f32 0) (f32 0) \<and> flt (f32 0) i
            \<and> Projectile_GetPosition shot
                = Vector2Add (GetPosition s)
                    (Vector2Rotate P \<lparr>vec_x = f32 0, vec_y = fneg (GetRadius s)\<rparr> a)
            \<and> velocity (p_physics shot)
                = Vector2Scale \<lparr>vec_x = sinf P a, vec_y = fneg (cosf P a)\<rparr> v"
proof -
  let ?i = "fdiv (f32 1) (GetFireRate s w)"
  let ?v = "fmul (GetSpacing s w) (GetFireRate s w)"
  let ?shot = "ShootAll_shot P s w ?v"
  have f: "fge (fmul (f32 2) ?i) ?i" "fge (fsub (fmul (f32 2) ?i) ?i) ?i"
      "\<not> fge (fsub (fsub (fmul (f32 2) ?i) ?i) ?i) ?i"
      "fsub (fsub (fmul (f32 2) ?i) ?i) ?i = f32 0"
    using interval_cases [OF rates, of w]
    by (auto simp: twice_18 twice_22 drain_18 drain_22 f32_0)
  have "ShootAll_loop P s w ?i ?v ps (fmul (f32 2) ?i) = Some (ps @ [?shot, ?shot], f32 0)"
    using ShootAll_loop_two [OF f(1) f(2) f(3), of P s w ?v ps] by (simp only: f(4))
  then have 1: "ShootAll P w dt (Ship s orbs) (ps, t)
             = ShootAll_orbiters P w dt orbs (ps @ [?shot, ?shot], f32 0)"
    by (simp only: ShootAll_alive [OF alive] acc option.case)
  have 2: "orbs = [] \<longrightarrow>
             ShootAll P w dt (Ship s orbs) (ps, t) = Some (ps @ [?shot, ?shot], f32 0)"
    using 1 by (auto simp del: ShootAll.simps)
  have 3: "dt = f32 0 \<and> (\<forall>c\<in>set (concat (map GetAllShips orbs)). std_rates c) \<longrightarrow>
             ShootAll P w dt (Ship s orbs) (ps, t) = Some (ps @ [?shot, ?shot], f32 0)"
    using 1 ShootAll_idle(2) [of orbs P w "ps @ [?shot, ?shot]"]
    by (auto simp del: ShootAll.simps)
  have 4: "fle (f32 0) (f32 0) \<and> flt (f32 0) ?i"
    using interval_cases [OF rates, of w] by (auto simp: f32_0 drain_18 drain_22)
  have 5: "Projectile_GetPosition ?shot
             = Vector2Add (GetPosition s)
                 (Vector2Rotate P \<lparr>vec_x = f32 0, vec_y = fneg (GetRadius s)\<rparr>
                    (fmul DEG2RAD (GetRotation s)))"
    by (simp add: ShootAll_shot_def MakeProjectile_def new_Projectile_def
        Projectile_GetPosition_def Vector2Rotate_def Let_def)
  have 6: "velocity (p_physics ?shot)
             = Vector2Scale \<lparr>vec_x = sinf P (fmul DEG2RAD (GetRotation s)),
                             vec_y = fneg (cosf P (fmul DEG2RAD (GetRotation s)))\<rparr> ?v"
    by (simp add: ShootAll_shot_def MakeProjectile_def new_Projectile_def Let_def)
  from 1 2 3 4 5 6 show ?thesis
    unfolding Let_def by blast
qed

text \<open>
  The root ship of a new game, laser, timer \<open>0\<close> and \<open>dt\<close> twice the interval: two
  projectiles from \<open>(800, 770)\<close>, 30 above the ship, at 720 a second upwards. The same
  ship with a new orbiter, timer twice the interval and \<open>dt = 0\<close>: the same two.
\<close>

theorem ShootAll_two_shots_witness:
  "ShootAll P0 LASER (Fin 14913081 (- 27)) (Ship root_ship []) ([], f32 0)
     = Some ([laser_at 800 770 0 (- 720), laser_at 800 770 0 (- 720)], f32 0)
   \<and> ShootAll P0 LASER (f32 0)
       (Ship root_ship [Ship (new_orbiter C_WIDTH C_HEIGHT 200 root_ship) []])
       ([], Fin 14913081 (- 27))
     = Some ([laser_at 800 770 0 (- 720), laser_at 800 770 0 (- 720)], f32 0)"
proof -
  let ?orb = "new_orbiter C_WIDTH C_HEIGHT 200 root_ship"
  have a: "IsAlive root_ship" and r: "std_rates root_ship"
    by code_simp+
  have acc1: "fadd (f32 0) (Fin 14913081 (- 27))
                = fmul (f32 2) (fdiv (f32 1) (GetFireRate root_ship LASER))"
    by code_simp
  have acc2: "fadd (Fin 14913081 (- 27)) (f32 0)
                = fmul (f32 2) (fdiv (f32 1) (GetFireRate root_ship LASER))"
    by code_simp
  have shot: "ShootAll_shot P0 root_ship LASER
                (fmul (GetSpacing root_ship LASER) (GetFireRate root_ship LASER))
              = laser_at 800 770 0 (- 720)"
    by code_simp
  have orb: "\<forall>c\<in>set (concat (map GetAllShips [Ship ?orb []])). std_rates c"
    by code_simp
  note T1 = ShootAll_two_shots [OF a r acc1, of P0 "[]" "[]", unfolded Let_def shot]
  from T1 [THEN conjunct2, THEN conjunct1]
  have 1: "ShootAll P0 LASER (Fin 14913081 (- 27)) (Ship root_ship []) ([], f32 0)
             = Some ([laser_at 800 770 0 (- 720), laser_at 800 770 0 (- 720)], f32 0)"
    by (simp del: ShootAll.simps)
  note T2 = ShootAll_two_shots [OF a r acc2, of P0 "[Ship ?orb []]" "[]", unfolded Let_def shot]
  from T2 [THEN conjunct2, THEN conjunct2, THEN conjunct1] orb
  have 2: "ShootAll P0 LASER (f32 0) (Ship root_ship [Ship ?orb []]) ([], Fin 14913081 (- 27))
             = Some ([laser_at 800 770 0 (- 720), laser_at 800 770 0 (- 720)], f32 0)"
    by (simp del: ShootAll.simps)
  from 1 2 show ?thesis
    by simp
qed

text \<open>
  C4 as stated fails. A ship that died of 100 damage, called with the timer at twice the
  interval and \<open>dt = 0\<close>, makes no projectile and leaves the timer where it was. A living
  ship with a new orbiter, called with the timer at \<open>0\<close> and \<open>dt\<close> twice the interval,
  makes two projectiles and its orbiter two more.
\<close>

theorem ShootAll_two_shots_counterexample:
  "Fin 14913081 (- 27) = fmul (f32 2) (fdiv (f32 1) (GetFireRate root_ship LASER))
   \<and> ShootAll P0 LASER (f32 0) (Ship (TakeDamage 100 root_ship) []) ([], Fin 14913081 (- 27))
       = Some ([], Fin 14913081 (- 27))
   \<and> map_option (\<lambda>r. (length (fst r), snd r))
       (ShootAll P0 LASER (Fin 14913081 (- 27))
          (Ship root_ship [Ship (new_orbiter C_WIDTH C_HEIGHT 200 root_ship) []]) ([], f32 0))
       = Some (4, f32 0)"
  by code_simp

subsection \<open>Ships against asteroids\<close>

lemma ship_scan_None:
  "ship_scan a ss = None \<longleftrightarrow> (\<forall>s\<in>set ss. \<not> (IsAlive s \<and> ship_hits s a))"
  by (induction ss) auto

lemma ship_scan_Some:
  "ship_scan a ss = Some ss' \<Longrightarrow>
     \<exists>k<length ss. IsAlive (ss ! k) \<and> ship_hits (ss ! k) a
        \<and> (\<forall>j<k. \<not> (IsAlive (ss ! j) \<and> ship_hits (ss ! j) a))
        \<and> ss' = ss[k := TakeDamage (Asteroid_GetDamage a) (ss ! k)]"
proof (induction ss arbitrary: ss')
  case Nil
  then show ?case
    by simp
next
  case (Cons s ss)
  show ?case
  proof (cases "IsAlive s \<and> ship_hits s a")
    case True
    with Cons.prems have "ss' = TakeDamage (Asteroid_GetDamage a) s # ss"
      by auto
    with True show ?thesis
      by (intro exI [of _ 0]) simp
  next
    case False
    with Cons.prems obtain r where r: "ship_scan a ss = Some r" and ss': "ss' = s # r"
      by auto
    from Cons.IH [OF r] obtain k where k: "k < length ss" "IsAlive (ss ! k)"
        "ship_hits (ss ! k) a" "\<forall>j<k. \<not> (IsAlive (ss ! j) \<and> ship_hits (ss ! j) a)"
        "r = ss[k := TakeDamage (Asteroid_GetDamage a) (ss ! k)]"
      by blast
    have "\<forall>j<Suc k. \<not> (IsAlive ((s # ss) ! j) \<and> ship_hits ((s # ss) ! j) a)"
      using False k(4) by (auto simp: less_Suc_eq_0_disj)
    with k ss' show ?thesis
      by (intro exI [of _ "Suc k"]) simp
  qed
qed

lemma ship_scan_dead:
  assumes "ship_scan a ss = Some ss'" and "k < length ss" and "\<not> alive (ss ! k)"
  shows "ss' ! k = ss ! k"
proof -
  from ship_scan_Some [OF assms(1)] obtain i where i: "i < length ss" "IsAlive (ss ! i)"
     "ss' = ss[i := TakeDamage (Asteroid_GetDamage a) (ss ! i)]"
    by blast
  with assms have "i \<noteq> k"
    by (auto simp: IsAlive_def)
  with i show ?thesis
    by simp
qed

lemma ship_scan_length: "ship_scan a ss = Some ss' \<Longrightarrow> length ss' = length ss"
  by (drule ship_scan_Some) auto

lemma remove_collision_length: "length (snd (snd (remove_collision R dt a ss))) = length ss"
  by (auto simp: remove_collision_def Let_def ship_scan_length split: option.splits)

lemma remove_collision_dead:
  "k < length ss \<Longrightarrow> \<not> alive (ss ! k) \<Longrightarrow> snd (snd (remove_collision R dt a ss)) ! k = ss ! k"
  by (auto simp: remove_collision_def Let_def ship_scan_dead split: option.splits)

lemma ship_pass_length: "length (snd (ship_pass R dt as ss)) = length ss"
  by (induction as arbitrary: ss) (simp_all add: Let_def remove_collision_length)

lemma ship_pass_dead:
  "k < length ss \<Longrightarrow> \<not> alive (ss ! k) \<Longrightarrow> snd (ship_pass R dt as ss) ! k = ss ! k"
proof (induction as arbitrary: ss)
  case Nil
  then show ?case
    by simp
next
  case (Cons a as)
  let ?ss = "snd (snd (remove_collision R dt a ss))"
  have 1: "?ss ! k = ss ! k"
    using Cons.prems by (rule remove_collision_dead)
  have 2: "k < length ?ss"
    using Cons.prems by (simp add: remove_collision_length)
  from Cons.IH [OF 2] 1 Cons.prems show ?case
    by (simp add: Let_def)
qed

text \<open>What the pass keeps is what \<^verbatim>\<open>Update\<close> made of asteroids that it reported active.\<close>

lemma ship_pass_kept:
  "b \<in> set (fst (ship_pass R dt as ss)) \<Longrightarrow>
     \<exists>a\<in>set as. b = snd (Asteroid_Update R dt a) \<and> fst (Asteroid_Update R dt a)"
proof (induction as arbitrary: ss)
  case Nil
  then show ?case
    by simp
next
  case (Cons a as)
  let ?c = "remove_collision R dt a ss"
  show ?case
  proof (cases "b \<in> set (fst (ship_pass R dt as (snd (snd ?c))))")
    case True
    from Cons.IH [OF this] show ?thesis
      by auto
  next
    case False
    with Cons.prems have "\<not> fst ?c" and "b = fst (snd ?c)"
      by (auto simp: Let_def split: if_splits)
    then have "b = snd (Asteroid_Update R dt a) \<and> fst (Asteroid_Update R dt a)"
      by (auto simp: remove_collision_def Let_def split: option.splits)
    then show ?thesis
      by simp
  qed
qed

text \<open>
  C2. For an asteroid \<open>a\<close> and the ships \<open>ss\<close> as they are when its turn comes: if some
  living ship is nearer to it than the sum of the radii, the first such ship of the list
  takes the asteroid's damage (\<open>hp\<close> becomes \<open>hp - damage\<close>), the other ships are unchanged,
  and the asteroid is removed. If there is none, the asteroid is updated and removed
  exactly when the update reports it off the screen, and no ship changes. The pass applies
  this to the asteroids in list order, each with the ships the earlier ones left.
\<close>

theorem remove_collision_spec:
  "((\<exists>s\<in>set ss. IsAlive s \<and> ship_hits s a) \<longrightarrow>
      (\<exists>k<length ss. IsAlive (ss ! k) \<and> ship_hits (ss ! k) a
         \<and> (\<forall>j<k. \<not> (IsAlive (ss ! j) \<and> ship_hits (ss ! j) a))
         \<and> remove_collision R dt a ss
             = (True, a, ss[k := TakeDamage (Asteroid_GetDamage a) (ss ! k)])
         \<and> hp (TakeDamage (Asteroid_GetDamage a) (ss ! k))
             = wrap32 (hp (ss ! k) - Asteroid_GetDamage a)))
   \<and> ((\<forall>s\<in>set ss. \<not> (IsAlive s \<and> ship_hits s a)) \<longrightarrow>
        remove_collision R dt a ss
          = (\<not> fst (Asteroid_Update R dt a), snd (Asteroid_Update R dt a), ss))
   \<and> ship_pass R dt [] ss = ([], ss)
   \<and> ship_pass R dt (a # as) ss
       = (let c = remove_collision R dt a ss;
              r = ship_pass R dt as (snd (snd c))
          in (if fst c then fst r else fst (snd c) # fst r, snd r))"
proof -
  have 1: "(\<exists>s\<in>set ss. IsAlive s \<and> ship_hits s a) \<longrightarrow>
      (\<exists>k<length ss. IsAlive (ss ! k) \<and> ship_hits (ss ! k) a
         \<and> (\<forall>j<k. \<not> (IsAlive (ss ! j) \<and> ship_hits (ss ! j) a))
         \<and> remove_collision R dt a ss
             = (True, a, ss[k := TakeDamage (Asteroid_GetDamage a) (ss ! k)])
         \<and> hp (TakeDamage (Asteroid_GetDamage a) (ss ! k))
             = wrap32 (hp (ss ! k) - Asteroid_GetDamage a))"
  proof
    assume "\<exists>s\<in>set ss. IsAlive s \<and> ship_hits s a"
    then have "ship_scan a ss \<noteq> None"
      by (simp add: ship_scan_None)
    then obtain ss' where s: "ship_scan a ss = Some ss'"
      by auto
    from ship_scan_Some [OF s] obtain k where k: "k < length ss" "IsAlive (ss ! k)"
        "ship_hits (ss ! k) a" "\<forall>j<k. \<not> (IsAlive (ss ! j) \<and> ship_hits (ss ! j) a)"
        "ss' = ss[k := TakeDamage (Asteroid_GetDamage a) (ss ! k)]"
      by blast
    have "remove_collision R dt a ss
            = (True, a, ss[k := TakeDamage (Asteroid_GetDamage a) (ss ! k)])"
      using s k(5) by (simp add: remove_collision_def)
    moreover have "hp (TakeDamage (Asteroid_GetDamage a) (ss ! k))
                     = wrap32 (hp (ss ! k) - Asteroid_GetDamage a)"
      using k(2) by (simp add: TakeDamage_def IsAlive_def Let_def)
    ultimately show "\<exists>k<length ss. IsAlive (ss ! k) \<and> ship_hits (ss ! k) a
         \<and> (\<forall>j<k. \<not> (IsAlive (ss ! j) \<and> ship_hits (ss ! j) a))
         \<and> remove_collision R dt a ss
             = (True, a, ss[k := TakeDamage (Asteroid_GetDamage a) (ss ! k)])
         \<and> hp (TakeDamage (Asteroid_GetDamage a) (ss ! k))
             = wrap32 (hp (ss ! k) - Asteroid_GetDamage a)"
      using k by blast
  qed
  have 2: "(\<forall>s\<in>set ss. \<not> (IsAlive s \<and> ship_hits s a)) \<longrightarrow>
        remove_collision R dt a ss
          = (\<not> fst (Asteroid_Update R dt a), snd (Asteroid_Update R dt a), ss)"
  proof
    assume "\<forall>s\<in>set ss. \<not> (IsAlive s \<and> ship_hits s a)"
    then have "ship_scan a ss = None"
      by (simp add: ship_scan_None)
    then show "remove_collision R dt a ss
                 = (\<not> fst (Asteroid_Update R dt a), snd (Asteroid_Update R dt a), ss)"
      by (simp add: remove_collision_def Let_def)
  qed
  have 3: "ship_pass R dt [] ss = ([], ss)"
    by simp
  have 4: "ship_pass R dt (a # as) ss
       = (let c = remove_collision R dt a ss;
              r = ship_pass R dt as (snd (snd c))
          in (if fst c then fst r else fst (snd c) # fst r, snd r))"
    by simp
  from 1 2 3 4 show ?thesis
    by blast
qed

text \<open>
  A dead ship and a living one, both in reach of an asteroid of damage 5: the living one,
  second in the list, is left with 95 and the asteroid is removed. An asteroid out of
  reach of the ship is updated and kept; one that the update carries off the screen is
  removed.
\<close>

theorem remove_collision_spec_witness:
  "remove_collision (Renderer_Init C_WIDTH C_HEIGHT) (f32 1) (asteroid_at 110 100 0 0)
      [TakeDamage 100 (ship_at 100 100), ship_at 120 100]
     = (True, asteroid_at 110 100 0 0,
        [TakeDamage 100 (ship_at 100 100), TakeDamage 5 (ship_at 120 100)])
   \<and> hp (TakeDamage 5 (ship_at 120 100)) = 95
   \<and> fst (remove_collision (Renderer_Init C_WIDTH C_HEIGHT) (f32 1)
            (asteroid_at 1000 1000 0 0) [ship_at 100 100]) = False
   \<and> fst (remove_collision (Renderer_Init C_WIDTH C_HEIGHT) (f32 1)
            (asteroid_at 1610 1000 10 0) [ship_at 100 100]) = True"
proof -
  let ?R = "Renderer_Init C_WIDTH C_HEIGHT"
  let ?ss = "[TakeDamage 100 (ship_at 100 100), ship_at 120 100]"
  let ?a = "asteroid_at 110 100 0 0"
  have h: "\<exists>s\<in>set ?ss. IsAlive s \<and> ship_hits s ?a"
    by code_simp
  have d: "\<not> IsAlive (?ss ! 0)" "Asteroid_GetDamage ?a = 5" "wrap32 (hp (ship_at 120 100) - 5) = 95"
    by code_simp+
  from remove_collision_spec [of ?ss ?a ?R "f32 1" "[]"] h
  obtain k where k: "k < length ?ss" "IsAlive (?ss ! k)"
      "remove_collision ?R (f32 1) ?a ?ss
         = (True, ?a, ?ss[k := TakeDamage (Asteroid_GetDamage ?a) (?ss ! k)])"
      "hp (TakeDamage (Asteroid_GetDamage ?a) (?ss ! k))
         = wrap32 (hp (?ss ! k) - Asteroid_GetDamage ?a)"
    by blast
  from k(1,2) d(1) have k1: "k = Suc 0"
    by (cases k) auto
  from k(3) have 1: "remove_collision ?R (f32 1) ?a ?ss
                       = (True, ?a, [TakeDamage 100 (ship_at 100 100), TakeDamage 5 (ship_at 120 100)])"
    unfolding k1 d(2) by simp
  from k(4) d(3) have 2: "hp (TakeDamage 5 (ship_at 120 100)) = 95"
    unfolding k1 d(2) by simp
  have n: "\<forall>s\<in>set [ship_at 100 100]. \<not> (IsAlive s \<and> ship_hits s (asteroid_at 1000 1000 0 0))"
      "\<forall>s\<in>set [ship_at 100 100]. \<not> (IsAlive s \<and> ship_hits s (asteroid_at 1610 1000 10 0))"
    by code_simp+
  have u: "fst (Asteroid_Update ?R (f32 1) (asteroid_at 1000 1000 0 0))"
      "\<not> fst (Asteroid_Update ?R (f32 1) (asteroid_at 1610 1000 10 0))"
    by code_simp+
  from remove_collision_spec [of "[ship_at 100 100]" "asteroid_at 1000 1000 0 0" ?R "f32 1" "[]"] n(1) u(1)
  have 3: "fst (remove_collision ?R (f32 1) (asteroid_at 1000 1000 0 0) [ship_at 100 100]) = False"
    by simp
  from remove_collision_spec [of "[ship_at 100 100]" "asteroid_at 1610 1000 10 0" ?R "f32 1" "[]"] n(2) u(2)
  have 4: "fst (remove_collision ?R (f32 1) (asteroid_at 1610 1000 10 0) [ship_at 100 100]) = True"
    by simp
  from 1 2 3 4 show ?thesis
    by simp
qed

text \<open>
  C9. \<^verbatim>\<open>ShootAll\<close> on a dead ship returns the projectile list and the shot timer as they
  were, whatever orbiters the ship has. In the pass of the ships against the asteroids a
  ship whose \<open>alive\<close> is false is left as it is, by every call of the lambda and so by the
  whole pass.
\<close>

theorem dead_ship_spec:
  "(\<not> IsAlive s \<longrightarrow> ShootAll P w dt (Ship s orbs) (ps, t) = Some (ps, t))
   \<and> (\<forall>k<length ss. \<not> alive (ss ! k) \<longrightarrow>
         snd (snd (remove_collision R dt a ss)) ! k = ss ! k)
   \<and> (\<forall>k<length ss. \<not> alive (ss ! k) \<longrightarrow> snd (ship_pass R dt as ss) ! k = ss ! k)
   \<and> length (snd (ship_pass R dt as ss)) = length ss"
  using ShootAll_dead [of s P w dt orbs "(ps, t)"]
  by (simp add: remove_collision_dead ship_pass_dead ship_pass_length del: ShootAll.simps)

text \<open>
  The dead ship of the example above has an orbiter and is called with a timer of two
  intervals: nothing is fired. It lies under two asteroids and keeps its 0 hit points.
\<close>

theorem dead_ship_spec_witness:
  "ShootAll P0 LASER (f32 1)
      (Ship (TakeDamage 100 (ship_at 100 100)) [Ship (new_orbiter C_WIDTH C_HEIGHT 200 root_ship) []])
      ([], Fin 14913081 (- 27))
     = Some ([], Fin 14913081 (- 27))
   \<and> snd (ship_pass (Renderer_Init C_WIDTH C_HEIGHT) (f32 1)
            [asteroid_at 110 100 0 0, asteroid_at 100 110 0 0]
            [TakeDamage 100 (ship_at 100 100), ship_at 120 100]) ! 0
     = TakeDamage 100 (ship_at 100 100)
   \<and> hp (TakeDamage 100 (ship_at 100 100)) = 0"
proof -
  let ?d = "TakeDamage 100 (ship_at 100 100)"
  let ?ss = "[?d, ship_at 120 100]"
  have a: "\<not> IsAlive ?d" "\<not> alive (?ss ! 0)" "hp ?d = 0" "(0::nat) < length ?ss"
    by code_simp+
  note T = dead_ship_spec [where s = ?d and P = P0 and w = LASER and dt = "f32 1"
      and orbs = "[Ship (new_orbiter C_WIDTH C_HEIGHT 200 root_ship) []]" and ps = "[]"
      and t = "Fin 14913081 (- 27)" and ss = ?ss and R = "Renderer_Init C_WIDTH C_HEIGHT"
      and a = "asteroid_at 110 100 0 0"
      and as = "[asteroid_at 110 100 0 0, asteroid_at 100 110 0 0]"]
  from T a(1) have 1: "ShootAll P0 LASER (f32 1)
      (Ship ?d [Ship (new_orbiter C_WIDTH C_HEIGHT 200 root_ship) []]) ([], Fin 14913081 (- 27))
     = Some ([], Fin 14913081 (- 27))"
    by (simp del: ShootAll.simps)
  from T a(2,4) have 2: "snd (ship_pass (Renderer_Init C_WIDTH C_HEIGHT) (f32 1)
            [asteroid_at 110 100 0 0, asteroid_at 100 110 0 0] ?ss) ! 0 = ?d"
    by (simp del: ShootAll.simps ship_pass.simps)
  from 1 2 a(3) show ?thesis
    by simp
qed

subsection \<open>Projectiles against asteroids\<close>


lemma asteroid_scan_Some:
  "asteroid_scan p as = Some as' \<Longrightarrow>
     \<exists>i<length as. projectile_hits p (as ! i) \<and> (\<forall>j<i. \<not> projectile_hits p (as ! j))
        \<and> as' = take i as @ drop (Suc i) as"
proof (induction as arbitrary: as')
  case Nil
  then show ?case
    by simp
next
  case (Cons a as)
  show ?case
  proof (cases "projectile_hits p a")
    case True
    with Cons.prems have "as' = as"
      by simp
    with True show ?thesis
      by (intro exI [of _ 0]) simp
  next
    case False
    with Cons.prems obtain r where r: "asteroid_scan p as = Some r" and as': "as' = a # r"
      by auto
    from Cons.IH [OF r] obtain i where i: "i < length as" "projectile_hits p (as ! i)"
        "\<forall>j<i. \<not> projectile_hits p (as ! j)" "r = take i as @ drop (Suc i) as"
      by blast
    have "\<forall>j<Suc i. \<not> projectile_hits p ((a # as) ! j)"
      using False i(3) by (auto simp: less_Suc_eq_0_disj)
    with i as' show ?thesis
      by (intro exI [of _ "Suc i"]) simp
  qed
qed






lemma projectile_pass_subset: "set (fst (snd (projectile_pass ps as ss))) \<subseteq> set as"
proof (induction ps arbitrary: as ss)
  case Nil
  then show ?case
    by simp
next
  case (Cons p ps)
  show ?case
  proof (cases "asteroid_scan p as")
    case None
    with Cons.IH [of as ss] show ?thesis
      by (simp add: Let_def)
  next
    case (Some as')
    from asteroid_scan_Some [OF Some] obtain i where "as' = take i as @ drop (Suc i) as"
      by blast
    then have "set as' \<subseteq> set as"
      by (auto dest: in_set_takeD in_set_dropD)
    with Cons.IH [of as' "credit_closest (Projectile_GetPosition p) ss"] Some show ?thesis
      by auto
  qed
qed




text \<open>
  The projectiles the pass sees are those the update of the same frame has kept: they are
  on the screen.
\<close>

lemma update_projectiles_set:
  "p \<in> set (update_projectiles R dt qs) \<Longrightarrow>
     \<exists>q\<in>set qs. p = snd (Projectile_Update R dt q) \<and> \<not> fst (Projectile_Update R dt q)"
  by (auto simp: update_projectiles_def)

lemma update_projectiles_on_screen:
  assumes "p \<in> set (update_projectiles R dt qs)"
  shows "\<not> flt (vec_x (Projectile_GetPosition p)) (f32 0)
     \<and> \<not> fgt (vec_x (Projectile_GetPosition p)) (f32 (Width R))
     \<and> \<not> flt (vec_y (Projectile_GetPosition p)) (f32 0)
     \<and> \<not> fgt (vec_y (Projectile_GetPosition p)) (f32 (Height R))"
proof -
  from update_projectiles_set [OF assms] obtain q where
    q: "p = snd (Projectile_Update R dt q)" "\<not> fst (Projectile_Update R dt q)"
    by blast
  then show ?thesis
    by (auto simp: Projectile_Update_def Projectile_GetPosition_def Let_def split: if_splits)
qed

text \<open>
  The search for the closest ship starts from the distance \<open>10^9\<close>, which stands for no
  distance at all. A projectile that hits an asteroid has numbers for its coordinates, and
  it is on the screen: every ship whose coordinates are within \<open>2^27 = 134217728\<close> of the
  origin is less than \<open>2^29\<close> away from it, so the search finds a ship.
\<close>

lemma Vector2Distance_between:
  assumes "fin_between (- (2 powi 27)) (2 powi 27) (vec_x v1)"
    and "fin_between (- (2 powi 27)) (2 powi 27) (vec_y v1)"
    and "fin_between (- (2 powi 11)) (2 powi 11) (vec_x v2)"
    and "fin_between (- (2 powi 11)) (2 powi 11) (vec_y v2)"
  shows "fin_between 0 (2 powi 29) (Vector2Distance v1 v2)"
proof -
  let ?dx = "fsub (vec_x v1) (vec_x v2)"
  let ?dy = "fsub (vec_y v1) (vec_y v2)"
  have dx: "fin_between (- (2 powi 28)) (2 powi 28) ?dx"
    using assms(1,3) by (rule fsub_between) simp_all
  have dy: "fin_between (- (2 powi 28)) (2 powi 28) ?dy"
    using assms(2,4) by (rule fsub_between) simp_all
  have "fin_between 0 (2 powi (2 * 28)) (fmul ?dx ?dx)"
    using dx by (rule fmul_self_between) simp_all
  moreover have "fin_between 0 (2 powi (2 * 28)) (fmul ?dy ?dy)"
    using dy by (rule fmul_self_between) simp_all
  ultimately have "fin_between 0 (2 powi (2 * 28 + 1)) (fadd (fmul ?dx ?dx) (fmul ?dy ?dy))"
    by (rule fadd_between_pos) simp_all
  then have "fin_between 0 (2 powi (2 * 29)) (fadd (fmul ?dx ?dx) (fmul ?dy ?dy))"
    by (rule fin_between_mono) (simp_all add: p2_mono)
  then have "fin_between 0 (2 powi 29) (fsqrt (fadd (fmul ?dx ?dx) (fmul ?dy ?dy)))"
    by (rule fsqrt_between) simp_all
  then show ?thesis
    by (simp add: Vector2Distance_def Let_def)
qed

lemma Vector2Distance_NaN:
  "vec_x v1 = NaN \<or> vec_y v1 = NaN \<Longrightarrow> Vector2Distance v1 v2 = NaN"
proof -
  have 1: "fadd a NaN = NaN" for a
    by (cases a) simp_all
  show "vec_x v1 = NaN \<or> vec_y v1 = NaN \<Longrightarrow> Vector2Distance v1 v2 = NaN"
    by (auto simp: Vector2Distance_def Let_def fsub_def 1)
qed

lemma fle_between:
  assumes "fle (f32 (- 134217728)) x" and "fle x (f32 134217728)"
  shows "fin_between (- (2 powi 27)) (2 powi 27) x"
proof -
  have c: "f32 (- 134217728) = Fin (- 8388608) 4" "f32 134217728 = Fin 8388608 4"
    by code_simp+
  have v: "fval 8388608 4 = 2 powi 27" "fval (- 8388608) 4 = - (2 powi 27)"
    by (simp_all add: fval_def)
  show ?thesis
  proof (cases x)
    case (Fin m e)
    from assms have "fval (- 8388608) 4 \<le> fval m e" "fval m e \<le> fval 8388608 4"
      unfolding c Fin fle_Fin by blast+
    then show ?thesis
      by (simp add: Fin fin_between_def v)
  qed (use assms in \<open>simp_all add: c\<close>)
qed

lemma on_screen_between:
  assumes "x \<noteq> NaN" and "\<not> flt x (f32 0)" and "\<not> fgt x (f32 1600)"
  shows "fin_between (- (2 powi 11)) (2 powi 11) x"
proof -
  have c: "f32 0 = Fin 0 (- 149)" "f32 1600 = Fin 13107200 (- 13)"
    by code_simp+
  have v: "fval 0 (- 149) = 0" "fval 13107200 (- 13) = 1600"
    by (simp_all add: fval_def)
  show ?thesis
  proof (cases x)
    case (Fin m e)
    from assms(2,3) have "\<not> fval m e < fval 0 (- 149)" "\<not> fval 13107200 (- 13) < fval m e"
      unfolding c fgt_def Fin flt_Fin by blast+
    then show ?thesis
      by (simp add: Fin fin_between_def v)
  qed (use assms in \<open>simp_all add: c fgt_def\<close>)
qed

lemma below_sentinel:
  assumes "fin_between 0 (2 powi 29) d"
  shows "flt d (f32 1000000000)"
proof -
  have c: "f32 1000000000 = Fin 15625000 6"
    by code_simp
  have v: "fval 15625000 6 = 1000000000"
    by (simp add: fval_def)
  show ?thesis
  proof (cases d)
    case (Fin m e)
    from assms have "fval m e < fval 15625000 6"
      by (simp add: Fin fin_between_def v)
    then show ?thesis
      unfolding c Fin by (simp only: flt_Fin)
  qed (use assms in \<open>simp_all add: fin_between_def\<close>)
qed

lemma closest_ship_in_reach:
  assumes kept: "p \<in> set (update_projectiles (Renderer_Init C_WIDTH C_HEIGHT) dt qs)"
    and hit: "projectile_hits p a"
    and sx: "fle (f32 (- 134217728)) (vec_x (GetPosition s))"
      "fle (vec_x (GetPosition s)) (f32 134217728)"
    and sy: "fle (f32 (- 134217728)) (vec_y (GetPosition s))"
      "fle (vec_y (GetPosition s)) (f32 134217728)"
  shows "flt (Vector2Distance (GetPosition s) (Projectile_GetPosition p)) (f32 1000000000)"
proof -
  let ?pos = "Projectile_GetPosition p"
  have n: "vec_x ?pos \<noteq> NaN" "vec_y ?pos \<noteq> NaN"
    using hit Vector2Distance_NaN [of ?pos "Asteroid_GetPosition a"]
    by (auto simp: projectile_hits_def)
  note o = update_projectiles_on_screen [OF kept]
  have w: "f32 (Width (Renderer_Init C_WIDTH C_HEIGHT)) = f32 1600"
      "f32 (Height (Renderer_Init C_WIDTH C_HEIGHT)) = f32 1600"
    by (simp_all add: Width_def Height_def Renderer_Init_def C_WIDTH_def C_HEIGHT_def)
  have px: "fin_between (- (2 powi 11)) (2 powi 11) (vec_x ?pos)"
    using n(1) o by (intro on_screen_between) (simp_all add: w)
  have py: "fin_between (- (2 powi 11)) (2 powi 11) (vec_y ?pos)"
    using n(2) o by (intro on_screen_between) (simp_all add: w)
  from fle_between [OF sx] fle_between [OF sy] px py
  have "fin_between 0 (2 powi 29) (Vector2Distance (GetPosition s) ?pos)"
    by (rule Vector2Distance_between)
  then show ?thesis
    by (rule below_sentinel)
qed



text \<open>
  The search does not find a ship that is \<open>10^9\<close> or more away: with the only ship at
  \<open>(2000000000, 0)\<close> and the projectile at \<open>(0, 0)\<close>, the asteroid and the projectile are
  erased and the ship's score is still 0.
\<close>

lemma closest_ship_beyond_reach:
  "projectile_hits (laser_at 0 0 0 0) (asteroid_at 0 0 0 0)
   \<and> projectile_pass [laser_at 0 0 0 0] [asteroid_at 0 0 0 0] [ship_at 2000000000 0]
       = ([], [], [ship_at 2000000000 0])
   \<and> score (ship_at 2000000000 0) = 0"
  by code_simp

subsection \<open>The order of a frame\<close>

lemma Projectile_Update_position:
  "Projectile_GetPosition (snd (Projectile_Update R dt q))
     = Vector2Add (Projectile_GetPosition q) (Vector2Scale (velocity (p_physics q)) dt)"
  by (simp add: Projectile_Update_def Projectile_GetPosition_def Let_def)

lemma Asteroid_Update_position:
  "Asteroid_GetPosition (snd (Asteroid_Update R dt a))
     = Vector2Add (Asteroid_GetPosition a) (Vector2Scale (velocity (a_physics a)) dt)"
  by (simp add: Asteroid_Update_def Asteroid_GetPosition_def Let_def)

text \<open>Up to the collisions a frame clears the asteroid list or appends a new asteroid to
  it, and changes no asteroid.\<close>

lemma frame_shoot_asteroids:
  "frame_shoot P inp g = Some g' \<Longrightarrow> asteroids g' = asteroids g"
  by (auto simp: frame_shoot_def Let_def split: if_splits option.splits)

lemma frame_select_asteroids: "asteroids (frame_select inp g) = asteroids g"
  by (simp add: frame_select_def Let_def)

lemma frame_begin_asteroids:
  assumes "frame_begin P inp g = Some g'" and "a \<in> set (asteroids g')"
  shows "a \<in> set (asteroids g)
         \<or> (\<exists>shape. a = MakeAsteroid P C_WIDTH C_HEIGHT shape (asteroid_rand inp))"
proof -
  let ?g2 = "frame_select inp (frame_restart P inp (frame_update P inp g))"
  from assms(1) obtain g3 where s: "frame_shoot P inp ?g2 = Some g3"
      and g': "g' = frame_spawn P inp g3"
    by (auto simp: frame_begin_def)
  have "set (asteroids ?g2) \<subseteq> set (asteroids g)"
    by (simp add: frame_select_asteroids frame_restart_def frame_update_def)
  with frame_shoot_asteroids [OF s] have 3: "set (asteroids g3) \<subseteq> set (asteroids g)"
    by simp
  from assms(2) g' have "a \<in> set (asteroids g3)
      \<or> a = MakeAsteroid P C_WIDTH C_HEIGHT (currentShape g3) (asteroid_rand inp)"
    by (auto simp: frame_spawn_def split: if_splits)
  with 3 show ?thesis
    by blast
qed

text \<open>
  C3, in the form the code satisfies. The collision part of a frame starts from the state
  \<open>gc\<close> that the frame
  has reached after the asteroid spawn. The projectiles both passes test are the
  projectiles of \<open>gc\<close> advanced by the frame's \<open>dt\<close>, those that left the screen taken out.
  The asteroids are tested where \<open>gc\<close> has them, and \<open>gc\<close> has them where the frame before
  left them (or they are new): the pass of the ships tests an asteroid against the ships
  first and only then, if no ship was hit, advances it by \<open>dt\<close> and checks the screen, so
  that the asteroids at the end of the frame are the advanced ones.
\<close>

theorem frame_order_spec:
  "Run_frame P inp g
     = (case frame_begin P inp g of
          None \<Rightarrow> None
        | Some g' \<Rightarrow> frame_orbiter P (frame_collide inp g'))
   \<and> (let R = Renderer_Init C_WIDTH C_HEIGHT;
          ps = update_projectiles R (frame_dt inp) (projectiles gc);
          c1 = projectile_pass ps (asteroids gc) (GetAllShips (player gc));
          c2 = ship_pass R (frame_dt inp) (fst (snd c1)) (snd (snd c1))
      in projectiles (frame_collide inp gc) = fst c1
         \<and> asteroids (frame_collide inp gc) = fst c2
         \<and> (\<forall>p\<in>set ps. \<exists>q\<in>set (projectiles gc).
               p = snd (Projectile_Update R (frame_dt inp) q)
               \<and> \<not> fst (Projectile_Update R (frame_dt inp) q))
         \<and> set (fst (snd c1)) \<subseteq> set (asteroids gc)
         \<and> (\<forall>b\<in>set (fst c2). \<exists>a\<in>set (fst (snd c1)).
               b = snd (Asteroid_Update R (frame_dt inp) a)
               \<and> fst (Asteroid_Update R (frame_dt inp) a)))
   \<and> (frame_begin P inp g = Some gc \<longrightarrow>
        (\<forall>a\<in>set (asteroids gc). a \<in> set (asteroids g)
           \<or> (\<exists>shape. a = MakeAsteroid P C_WIDTH C_HEIGHT shape (asteroid_rand inp))))
   \<and> remove_collision R' dt a ss
       = (case ship_scan a ss of
            Some ss' \<Rightarrow> (True, a, ss')
          | None \<Rightarrow> (\<not> fst (Asteroid_Update R' dt a), snd (Asteroid_Update R' dt a), ss))
   \<and> Projectile_GetPosition (snd (Projectile_Update R' dt q))
       = Vector2Add (Projectile_GetPosition q) (Vector2Scale (velocity (p_physics q)) dt)
   \<and> Asteroid_GetPosition (snd (Asteroid_Update R' dt a))
       = Vector2Add (Asteroid_GetPosition a) (Vector2Scale (velocity (a_physics a)) dt)"
proof -
  let ?R = "Renderer_Init C_WIDTH C_HEIGHT"
  let ?ps = "update_projectiles ?R (frame_dt inp) (projectiles gc)"
  let ?c1 = "projectile_pass ?ps (asteroids gc) (GetAllShips (player gc))"
  let ?c2 = "ship_pass ?R (frame_dt inp) (fst (snd ?c1)) (snd (snd ?c1))"
  have 1: "Run_frame P inp g
     = (case frame_begin P inp g of
          None \<Rightarrow> None
        | Some g' \<Rightarrow> frame_orbiter P (frame_collide inp g'))"
    by (simp add: Run_frame_def)
  have 2: "projectiles (frame_collide inp gc) = fst ?c1
           \<and> asteroids (frame_collide inp gc) = fst ?c2"
    by (simp add: frame_collide_def Let_def)
  have 3: "\<forall>p\<in>set ?ps. \<exists>q\<in>set (projectiles gc).
               p = snd (Projectile_Update ?R (frame_dt inp) q)
               \<and> \<not> fst (Projectile_Update ?R (frame_dt inp) q)"
    using update_projectiles_set by blast
  have 4: "set (fst (snd ?c1)) \<subseteq> set (asteroids gc)"
    by (rule projectile_pass_subset)
  have 5: "\<forall>b\<in>set (fst ?c2). \<exists>a\<in>set (fst (snd ?c1)).
               b = snd (Asteroid_Update ?R (frame_dt inp) a)
               \<and> fst (Asteroid_Update ?R (frame_dt inp) a)"
    using ship_pass_kept by blast
  have 6: "frame_begin P inp g = Some gc \<longrightarrow>
        (\<forall>a\<in>set (asteroids gc). a \<in> set (asteroids g)
           \<or> (\<exists>shape. a = MakeAsteroid P C_WIDTH C_HEIGHT shape (asteroid_rand inp)))"
    using frame_begin_asteroids by blast
  have 7: "remove_collision R' dt a ss
       = (case ship_scan a ss of
            Some ss' \<Rightarrow> (True, a, ss')
          | None \<Rightarrow> (\<not> fst (Asteroid_Update R' dt a), snd (Asteroid_Update R' dt a), ss))"
    by (simp add: remove_collision_def Let_def split: option.splits)
  from 1 2 3 4 5 6 7 Projectile_Update_position [of R' dt q]
    Asteroid_Update_position [of R' dt a]
  show ?thesis
    unfolding Let_def by blast
qed

text \<open>
  A frame of one second, no key held: a laser that flies from \<open>(200, 820)\<close> to
  \<open>(200, 100)\<close>, and an asteroid at \<open>(100, 100)\<close> that flies to \<open>(200, 100)\<close>. The state
  before the collisions still has the asteroid at \<open>(100, 100)\<close>; after the frame the
  asteroid is the advanced one.
\<close>

theorem frame_order_spec_witness:
  "frame_begin P0 (frame_of (f32 1) no_keys)
      (game_of (Ship root_ship []) [asteroid_at 100 100 100 0] [laser_at 200 820 0 (- 720)]
         (f32 0))
     = Some ((game_of (Ship root_ship []) [asteroid_at 100 100 100 0]
                [laser_at 200 820 0 (- 720)] (f32 0))\<lparr>spawnTimer := f32 1\<rparr>)
   \<and> map_option asteroids (Run_frame P0 (frame_of (f32 1) no_keys)
        (game_of (Ship root_ship []) [asteroid_at 100 100 100 0] [laser_at 200 820 0 (- 720)]
           (f32 0)))
     = Some [snd (Asteroid_Update (Renderer_Init C_WIDTH C_HEIGHT) (f32 1)
                   (asteroid_at 100 100 100 0))]
   \<and> Asteroid_GetPosition (snd (Asteroid_Update (Renderer_Init C_WIDTH C_HEIGHT) (f32 1)
        (asteroid_at 100 100 100 0)))
     = \<lparr>vec_x = f32 200, vec_y = f32 100\<rparr>"
proof -
  let ?inp = "frame_of (f32 1) no_keys"
  let ?g = "game_of (Ship root_ship []) [asteroid_at 100 100 100 0]
              [laser_at 200 820 0 (- 720)] (f32 0)"
  let ?g1 = "?g\<lparr>spawnTimer := f32 1\<rparr>"
  let ?R = "Renderer_Init C_WIDTH C_HEIGHT"
  note T = frame_order_spec [where P = P0 and inp = ?inp and g = ?g and gc = ?g1
      and R' = ?R and dt = "f32 1" and a = "asteroid_at 100 100 100 0" and ss = "[]"
      and q = "laser_at 200 820 0 (- 720)"]
  have b: "frame_begin P0 ?inp ?g = Some ?g1"
    by code_simp
  have c: "map_option asteroids (frame_orbiter P0 (frame_collide ?inp ?g1))
             = Some [snd (Asteroid_Update ?R (f32 1) (asteroid_at 100 100 100 0))]"
    by code_simp
  have v: "Vector2Add (Asteroid_GetPosition (asteroid_at 100 100 100 0))
             (Vector2Scale (velocity (a_physics (asteroid_at 100 100 100 0))) (f32 1))
           = \<lparr>vec_x = f32 200, vec_y = f32 100\<rparr>"
    by code_simp
  from T [THEN conjunct1] b c
  have 1: "map_option asteroids (Run_frame P0 ?inp ?g)
             = Some [snd (Asteroid_Update ?R (f32 1) (asteroid_at 100 100 100 0))]"
    by simp
  from T v
  have 2: "Asteroid_GetPosition (snd (Asteroid_Update ?R (f32 1) (asteroid_at 100 100 100 0)))
             = \<lparr>vec_x = f32 200, vec_y = f32 100\<rparr>"
    by simp
  from b 1 2 show ?thesis
    by simp
qed

text \<open>
  C3 as stated fails. In the frame of the example the projectile, advanced to
  \<open>(200, 100)\<close>, is in reach of the asteroid advanced to \<open>(200, 100)\<close>, but not of the
  asteroid at \<open>(100, 100)\<close>; the frame ends with both of them in the lists, the asteroid
  advanced: the projectile was tested against the asteroid where the frame before had
  left it.
\<close>

theorem frame_order_counterexample:
  "Run_frame P0 (frame_of (f32 1) no_keys)
      (game_of (Ship root_ship []) [asteroid_at 100 100 100 0] [laser_at 200 820 0 (- 720)]
         (f32 0))
     = Some ((game_of (Ship root_ship [])
                [snd (Asteroid_Update (Renderer_Init C_WIDTH C_HEIGHT) (f32 1)
                        (asteroid_at 100 100 100 0))]
                [laser_at 200 100 0 (- 720)] (f32 0))\<lparr>spawnTimer := f32 1\<rparr>)
   \<and> snd (Projectile_Update (Renderer_Init C_WIDTH C_HEIGHT) (f32 1)
           (laser_at 200 820 0 (- 720)))
       = laser_at 200 100 0 (- 720)
   \<and> Asteroid_GetPosition (snd (Asteroid_Update (Renderer_Init C_WIDTH C_HEIGHT) (f32 1)
        (asteroid_at 100 100 100 0)))
       = \<lparr>vec_x = f32 200, vec_y = f32 100\<rparr>
   \<and> projectile_hits (laser_at 200 100 0 (- 720))
        (snd (Asteroid_Update (Renderer_Init C_WIDTH C_HEIGHT) (f32 1)
                (asteroid_at 100 100 100 0)))
   \<and> \<not> projectile_hits (laser_at 200 100 0 (- 720)) (asteroid_at 100 100 100 0)"
  by code_simp

subsection \<open>Restart\<close>

text \<open>
  What the restart block does. When the root ship is dead and the restart key is pressed,
  it replaces the ship tree by a new root ship without orbiters, the one a new game starts
  with; it empties the asteroid list and the projectile list, sets the spawn timer to \<open>0\<close>
  and draws a new spawn interval. It assigns nothing else: the shot timer, the current
  weapon and the current shape keep their values. In every other case the block changes
  nothing.
\<close>

lemma frame_restart_fields:
  "frame_restart P inp g
     = (if \<not> IsAlive (obj (player g)) \<and> pressed_R (frame_keys inp)
        then \<lparr>player = player (Run_init P (restart_draw inp)),
              asteroids = [], projectiles = [],
              currentShape = currentShape g,
              spawnTimer = f32 0,
              spawnInterval = spawnInterval (Run_init P (restart_draw inp)),
              currentWeapon = currentWeapon g,
              shotTimer = shotTimer g\<rparr>
        else g)"
  by (simp add: frame_restart_def Run_init_def)

text \<open>
  C5 fails on the code: the restart block does not reset the shot timer, which \<^verbatim>\<open>Run\<close>
  declares beside the spawn timer and starts at \<open>0\<close>. The block leaves the shot timer of
  every state as it is. In the example the root ship is dead, has an orbiter, the lists
  are not empty and the shot timer is at \<open>0.01\<close>; the restart key is pressed in a frame of
  \<open>1/60\<close> second. The frame ends in the state of a new game, but for the shot timer,
  which is still \<open>0.01\<close>. It shows in the next frame: with the fire key held for \<open>0.05\<close>
  second, less than the interval of \<open>1/18\<close> second, the restarted game fires a projectile
  and a new game fires none.
\<close>

theorem frame_restart_keeps_shotTimer:
  "shotTimer (frame_restart P inp g) = shotTimer g
   \<and> Run_frame P0 (frame_of (lit 1 60) (no_keys\<lparr>pressed_R := True\<rparr>))
      (game_of (Ship (TakeDamage 100 root_ship)
                  [Ship (new_orbiter C_WIDTH C_HEIGHT 200 root_ship) []])
         [asteroid_at 100 100 100 0] [laser_at 200 820 0 (- 720)] (lit 1 100))
     = Some ((Run_init P0 0)\<lparr>shotTimer := lit 1 100\<rparr>)
   \<and> shotTimer (Run_init P0 0) = f32 0
   \<and> lit 1 100 \<noteq> f32 0
   \<and> map_option (\<lambda>g. length (projectiles g))
        (Run_frame P0 (frame_of (lit 5 100) (no_keys\<lparr>down_SPACE := True\<rparr>))
           ((Run_init P0 0)\<lparr>shotTimer := lit 1 100\<rparr>)) = Some 1
   \<and> map_option (\<lambda>g. length (projectiles g))
        (Run_frame P0 (frame_of (lit 5 100) (no_keys\<lparr>down_SPACE := True\<rparr>))
           (Run_init P0 0)) = Some 0"
proof -
  have 1: "shotTimer (frame_restart P inp g) = shotTimer g"
    by (simp add: frame_restart_def)
  have 2: "Run_frame P0 (frame_of (lit 1 60) (no_keys\<lparr>pressed_R := True\<rparr>))
      (game_of (Ship (TakeDamage 100 root_ship)
                  [Ship (new_orbiter C_WIDTH C_HEIGHT 200 root_ship) []])
         [asteroid_at 100 100 100 0] [laser_at 200 820 0 (- 720)] (lit 1 100))
     = Some ((Run_init P0 0)\<lparr>shotTimer := lit 1 100\<rparr>)"
    by code_simp
  have 3: "shotTimer (Run_init P0 0) = f32 0" "lit 1 100 \<noteq> f32 0"
    by code_simp+
  have 4: "map_option (\<lambda>g. length (projectiles g))
        (Run_frame P0 (frame_of (lit 5 100) (no_keys\<lparr>down_SPACE := True\<rparr>))
           ((Run_init P0 0)\<lparr>shotTimer := lit 1 100\<rparr>)) = Some 1"
    by code_simp
  have 5: "map_option (\<lambda>g. length (projectiles g))
        (Run_frame P0 (frame_of (lit 5 100) (no_keys\<lparr>down_SPACE := True\<rparr>))
           (Run_init P0 0)) = Some 0"
    by code_simp
  from 1 2 3 4 5 show ?thesis
    by blast
qed

subsection \<open>Orbiter spawn\<close>

lemma those_map_Some:
  "(\<forall>x\<in>set xs. f x = Some (g x)) \<Longrightarrow> those (map f xs) = Some (map g xs)"
  by (induction xs) simp_all

lemma ship_depth_orbiter:
  "c \<in> set orbs \<Longrightarrow> ship_depth c \<le> foldr max (map ship_depth orbs) 0"
  by (induction orbs) auto

lemma ship_depth_pos: "0 < ship_depth t"
  by (cases t) simp

lemma score_new_orbiter: "score (new_orbiter w h tex s) = 0"
  by (simp add: new_orbiter_def SetParent_def new_PlayerShip_def)

lemma TrySpawnOrbiter_leaf:
  "0 < thr \<Longrightarrow> TrySpawnOrbiter (Suc n) w h thr tex (Ship (new_orbiter w h tex s) [])
                = Some (Ship (new_orbiter w h tex s) [])"
  by (simp add: score_new_orbiter)

text \<open>
  With a positive threshold and enough stack the call returns, and returns what the
  description says.
\<close>

lemma TrySpawnOrbiter_result:
  "0 < thr \<Longrightarrow> ship_depth t < n \<Longrightarrow>
     TrySpawnOrbiter n w h thr tex t = Some (spawn_result w h thr tex t)"
proof (induction t arbitrary: n)
  case (Ship s orbs)
  from Ship.prems(2) obtain m where n: "n = Suc m" and m: "foldr max (map ship_depth orbs) 0 < m"
    by (cases n) auto
  show ?case
  proof (cases "thr \<le> score s \<and> orbs = []")
    case True
    from m obtain m' where m': "m = Suc m'"
      by (cases m) auto
    have "TrySpawnOrbiter m w h thr tex (Ship (new_orbiter w h tex s) [])
            = Some (Ship (new_orbiter w h tex s) [])"
      unfolding m' using Ship.prems(1) by (rule TrySpawnOrbiter_leaf)
    with True show ?thesis
      unfolding n by (simp add: new_orbiter_def)
  next
    case False
    have "\<forall>c\<in>set orbs. TrySpawnOrbiter m w h thr tex c = Some (spawn_result w h thr tex c)"
    proof
      fix c
      assume c: "c \<in> set orbs"
      from ship_depth_orbiter [OF c] m have "ship_depth c < m"
        by simp
      from Ship.IH [OF c Ship.prems(1) this]
      show "TrySpawnOrbiter m w h thr tex c = Some (spawn_result w h thr tex c)" .
    qed
    from those_map_Some [OF this] False show ?thesis
      unfolding n by auto
  qed
qed

text \<open>
  With a threshold that is not positive the new orbiter qualifies for an orbiter of its
  own, and so on: no stack is deep enough.
\<close>

lemma TrySpawnOrbiter_nonpositive:
  "thr \<le> 0 \<Longrightarrow> score s = 0 \<Longrightarrow> TrySpawnOrbiter n w h thr tex (Ship s []) = None"
proof (induction n arbitrary: s)
  case 0
  then show ?case
    by simp
next
  case (Suc n)
  from Suc.IH [OF Suc.prems(1) score_new_orbiter, of w h tex s] Suc.prems show ?case
    by (simp add: new_orbiter_def)
qed

lemma spawn_result_idem:
  "0 < thr \<Longrightarrow>
     spawn_result w h thr tex (spawn_result w h thr tex t) = spawn_result w h thr tex t"
proof (induction t)
  case (Ship s orbs)
  show ?case
  proof (cases "thr \<le> score s \<and> orbs = []")
    case True
    with Ship.prems show ?thesis
      by (simp add: score_new_orbiter)
  next
    case False
    have "map (spawn_result w h thr tex) (map (spawn_result w h thr tex) orbs)
            = map (spawn_result w h thr tex) orbs"
      using Ship.IH [OF _ Ship.prems] by simp
    with False show ?thesis
      by auto
  qed
qed

text \<open>
  C7, in the form the code satisfies. For a positive threshold (the game passes 3) and a
  call stack deep enough for the
  tree, \<^verbatim>\<open>TrySpawnOrbiter\<close> returns. The ship itself is unchanged. If its score has reached
  the threshold and it has no orbiter, it gets exactly one: a new ship bound to it, with
  orbit radius \<open>radius + 60\<close> and orbit angle \<open>0\<close>. In every other case it has as many
  orbiters as before, each of them the result of the same call on the orbiter it was. A
  second call changes nothing: no second orbiter.
\<close>

theorem TrySpawnOrbiter_spec:
  assumes "0 < thr" and "ship_depth t < n"
  shows "TrySpawnOrbiter n w h thr tex t = Some (spawn_result w h thr tex t)
   \<and> obj (spawn_result w h thr tex t) = obj t
   \<and> length (orbiters (spawn_result w h thr tex t))
       = (if thr \<le> score (obj t) \<and> orbiters t = [] then 1 else length (orbiters t))
   \<and> (thr \<le> score (obj t) \<and> orbiters t = [] \<longrightarrow>
        orbiters (spawn_result w h thr tex t) = [Ship (new_orbiter w h tex (obj t)) []]
        \<and> parent (new_orbiter w h tex (obj t))
        \<and> orbitRadius (new_orbiter w h tex (obj t)) = fadd (GetRadius (obj t)) (f32 60)
        \<and> orbitAngle (new_orbiter w h tex (obj t)) = f32 0)
   \<and> (\<not> (thr \<le> score (obj t) \<and> orbiters t = []) \<longrightarrow>
        orbiters (spawn_result w h thr tex t) = map (spawn_result w h thr tex) (orbiters t))
   \<and> spawn_result w h thr tex (spawn_result w h thr tex t) = spawn_result w h thr tex t
   \<and> (ship_depth (spawn_result w h thr tex t) < m \<longrightarrow>
        TrySpawnOrbiter m w h thr tex (spawn_result w h thr tex t)
          = Some (spawn_result w h thr tex t))"
proof -
  note i = spawn_result_idem [OF assms(1), of w h tex t]
  have 1: "TrySpawnOrbiter n w h thr tex t = Some (spawn_result w h thr tex t)"
    using assms by (rule TrySpawnOrbiter_result)
  have 2: "obj (spawn_result w h thr tex t) = obj t"
    by (cases t) simp
  have 3: "length (orbiters (spawn_result w h thr tex t))
       = (if thr \<le> score (obj t) \<and> orbiters t = [] then 1 else length (orbiters t))"
    by (cases t) simp
  have 4: "thr \<le> score (obj t) \<and> orbiters t = [] \<longrightarrow>
        orbiters (spawn_result w h thr tex t) = [Ship (new_orbiter w h tex (obj t)) []]
        \<and> parent (new_orbiter w h tex (obj t))
        \<and> orbitRadius (new_orbiter w h tex (obj t)) = fadd (GetRadius (obj t)) (f32 60)
        \<and> orbitAngle (new_orbiter w h tex (obj t)) = f32 0"
    by (cases t) (simp add: new_orbiter_def SetParent_def)
  have 5: "\<not> (thr \<le> score (obj t) \<and> orbiters t = []) \<longrightarrow>
        orbiters (spawn_result w h thr tex t) = map (spawn_result w h thr tex) (orbiters t)"
    by (cases t) auto
  have 6: "ship_depth (spawn_result w h thr tex t) < m \<longrightarrow>
        TrySpawnOrbiter m w h thr tex (spawn_result w h thr tex t)
          = Some (spawn_result w h thr tex t)"
    using TrySpawnOrbiter_result [OF assms(1), of "spawn_result w h thr tex t" m w h tex] i
    by simp
  from 1 2 3 4 5 i 6 show ?thesis
    by blast
qed

text \<open>
  The root ship with score 3 and no orbiter, threshold 3: the call gives it one orbiter,
  at orbit radius 90 (the root's radius of 30.000002 plus 60, rounded) and angle 0; the call on the result gives
  the result again.
\<close>

theorem TrySpawnOrbiter_spec_witness:
  "TrySpawnOrbiter 2 C_WIDTH C_HEIGHT SCORE_THRESHOLD 200 (Ship (root_ship\<lparr>score := 3\<rparr>) [])
     = Some (Ship (root_ship\<lparr>score := 3\<rparr>)
               [Ship (new_orbiter C_WIDTH C_HEIGHT 200 (root_ship\<lparr>score := 3\<rparr>)) []])
   \<and> TrySpawnOrbiter 3 C_WIDTH C_HEIGHT SCORE_THRESHOLD 200
       (Ship (root_ship\<lparr>score := 3\<rparr>)
          [Ship (new_orbiter C_WIDTH C_HEIGHT 200 (root_ship\<lparr>score := 3\<rparr>)) []])
     = Some (Ship (root_ship\<lparr>score := 3\<rparr>)
               [Ship (new_orbiter C_WIDTH C_HEIGHT 200 (root_ship\<lparr>score := 3\<rparr>)) []])
   \<and> orbitRadius (new_orbiter C_WIDTH C_HEIGHT 200 (root_ship\<lparr>score := 3\<rparr>)) = f32 90
   \<and> orbitAngle (new_orbiter C_WIDTH C_HEIGHT 200 (root_ship\<lparr>score := 3\<rparr>)) = f32 0"
proof -
  let ?s = "root_ship\<lparr>score := 3\<rparr>"
  let ?t = "Ship ?s []"
  let ?t' = "Ship ?s [Ship (new_orbiter C_WIDTH C_HEIGHT 200 ?s) []]"
  have p: "0 < SCORE_THRESHOLD" "ship_depth ?t < 2"
    by code_simp+
  have r: "spawn_result C_WIDTH C_HEIGHT SCORE_THRESHOLD 200 ?t = ?t'"
    by code_simp
  have d: "ship_depth ?t' < 3"
    by code_simp
  have o: "orbitRadius (new_orbiter C_WIDTH C_HEIGHT 200 ?s) = f32 90"
      "orbitAngle (new_orbiter C_WIDTH C_HEIGHT 200 ?s) = f32 0"
    by code_simp+
  note T = TrySpawnOrbiter_spec [OF p, of C_WIDTH C_HEIGHT 200 3, unfolded r]
  from T [THEN conjunct1] have 1: "TrySpawnOrbiter 2 C_WIDTH C_HEIGHT SCORE_THRESHOLD 200 ?t = Some ?t'" .
  from T d have 2: "TrySpawnOrbiter 3 C_WIDTH C_HEIGHT SCORE_THRESHOLD 200 ?t' = Some ?t'"
    by blast
  from 1 2 o show ?thesis
    by blast
qed

text \<open>
  C7 as stated fails for a threshold that is not positive. With the threshold 0 and the
  root ship of a new game, which has score 0 and no orbiter, the ship gets an orbiter; the
  call goes on into it, and it has score 0 and no orbiter: the call does not return,
  however deep the stack.
\<close>

theorem TrySpawnOrbiter_threshold_counterexample:
  "(\<forall>n. TrySpawnOrbiter n C_WIDTH C_HEIGHT 0 200 (Ship root_ship []) = None)
   \<and> score root_ship = 0 \<and> orbiters (Ship root_ship []) = []"
proof -
  have s: "score root_ship = 0"
    by (simp add: root_ship_def new_PlayerShip_def)
  from TrySpawnOrbiter_nonpositive [OF _ s, of 0] s show ?thesis
    by simp
qed

subsection \<open>Asteroid size, radius and damage\<close>

lemma GetRandomValue_0_2:
  "GetRandomValue r 0 2 = 0 \<or> GetRandomValue r 0 2 = 1 \<or> GetRandomValue r 0 2 = 2"
proof -
  have "0 \<le> r mod 3" "r mod 3 < 3"
    by simp_all
  then show ?thesis
    unfolding GetRandomValue_def Let_def by (simp) linarith
qed

lemma GetRandomValue_onto: "0 \<le> v \<Longrightarrow> v \<le> 2 \<Longrightarrow> GetRandomValue v 0 2 = v"
  by (simp add: GetRandomValue_def Let_def)

lemma radius_values:
  "fmul (f32 16) (f32 1) = f32 16" "fmul (f32 16) (f32 2) = f32 32"
  "fmul (f32 16) (f32 4) = f32 64"
  by code_simp+

lemma wrap32_small:
  "wrap32 5 = 5" "wrap32 10 = 10" "wrap32 15 = 15" "wrap32 20 = 20" "wrap32 30 = 30"
  "wrap32 40 = 40" "wrap32 60 = 60"
  by (simp_all add: wrap32_def)

lemma Asteroid_init_fields:
  "render_size (Asteroid_init P w h d c) = 2 ^ nat (GetRandomValue (size_draw d) 0 2)"
  "a_baseDamage (Asteroid_init P w h d c) = 0"
  "a_class (Asteroid_init P w h d c) = c"
  by (simp_all add: Asteroid_init_def Let_def)

lemma MakeAsteroid_fields:
  "render_size (MakeAsteroid P w h shape d) = 2 ^ nat (GetRandomValue (size_draw d) 0 2)"
  "a_baseDamage (MakeAsteroid P w h shape d)
     = (case a_class (MakeAsteroid P w h shape d) of
          TriangleAsteroid \<Rightarrow> 5 | SquareAsteroid \<Rightarrow> 10 | PentagonAsteroid \<Rightarrow> 15)"
  "a_class (MakeAsteroid P w h TRIANGLE d) = TriangleAsteroid"
  "a_class (MakeAsteroid P w h SQUARE d) = SquareAsteroid"
  "a_class (MakeAsteroid P w h PENTAGON d) = PentagonAsteroid"
  by (simp_all add: MakeAsteroid_def new_TriangleAsteroid_def new_SquareAsteroid_def
      new_PentagonAsteroid_def Asteroid_init_fields Let_def split: AsteroidShape.splits)

lemma Asteroid_Update_fields:
  "render_size (snd (Asteroid_Update R dt a)) = render_size a"
  "a_baseDamage (snd (Asteroid_Update R dt a)) = a_baseDamage a"
  "a_class (snd (Asteroid_Update R dt a)) = a_class a"
  by (simp_all add: Asteroid_Update_def Let_def)

lemma Asteroid_updates_fields:
  "render_size (Asteroid_updates R dts a) = render_size a
   \<and> a_baseDamage (Asteroid_updates R dts a) = a_baseDamage a
   \<and> a_class (Asteroid_updates R dts a) = a_class a"
  by (induction dts arbitrary: a) (simp_all add: Asteroid_Update_fields)

text \<open>
  C8. An asteroid made by \<^verbatim>\<open>MakeAsteroid\<close> and updated any number of times has a size of
  1, 2 or 4: the size the value \<open>v\<close> of \<^verbatim>\<open>GetRandomValue(0, 2)\<close> gave it at its creation,
  \<open>2^v\<close>, and each of the three values of \<open>v\<close> gives another size, so that the sizes are
  as evenly spread as raylib's values. Its radius is 16 times the size and its damage the
  base damage of its class times the size, the base damage being 5 for a triangle, 10 for
  a square and 15 for a pentagon. Size, class and base damage are those of the creation.
\<close>

theorem asteroid_size_spec:
  "(let a0 = MakeAsteroid P w h shape d;
        a = Asteroid_updates R dts a0;
        v = GetRandomValue (size_draw d) 0 2;
        base = (case a_class a of
                  TriangleAsteroid \<Rightarrow> 5 | SquareAsteroid \<Rightarrow> 10 | PentagonAsteroid \<Rightarrow> 15)
    in (v = 0 \<or> v = 1 \<or> v = 2)
       \<and> render_size a = 2 ^ nat v
       \<and> (render_size a = 1 \<or> render_size a = 2 \<or> render_size a = 4)
       \<and> Asteroid_GetRadius a = f32 (16 * render_size a)
       \<and> Asteroid_GetDamage a = base * render_size a
       \<and> a_baseDamage a = base
       \<and> render_size a = render_size a0 \<and> a_class a = a_class a0
       \<and> (shape = TRIANGLE \<and> a_class a = TriangleAsteroid
          \<or> shape = SQUARE \<and> a_class a = SquareAsteroid
          \<or> shape = PENTAGON \<and> a_class a = PentagonAsteroid
          \<or> shape = RANDOM))
   \<and> GetRandomValue 0 0 2 = 0 \<and> GetRandomValue 1 0 2 = 1 \<and> GetRandomValue 2 0 2 = 2
   \<and> (2::int) ^ nat 0 = 1 \<and> (2::int) ^ nat 1 = 2 \<and> (2::int) ^ nat 2 = 4"
proof -
  let ?new = "MakeAsteroid P w h shape d"
  let ?a = "Asteroid_updates R dts ?new"
  let ?v = "GetRandomValue (size_draw d) 0 2"
  let ?base = "case a_class ?a of
                 TriangleAsteroid \<Rightarrow> 5 | SquareAsteroid \<Rightarrow> 10 | PentagonAsteroid \<Rightarrow> (15::int)"
  note u = Asteroid_updates_fields [where R = R and dts = dts and a = ?new]
  have v: "?v = 0 \<or> ?v = 1 \<or> ?v = 2"
    by (rule GetRandomValue_0_2)
  have sz: "render_size ?a = 2 ^ nat ?v"
    using u by (simp add: MakeAsteroid_fields)
  from v sz have sz': "render_size ?a = 1 \<or> render_size ?a = 2 \<or> render_size ?a = 4"
    by auto
  have rad: "Asteroid_GetRadius ?a = f32 (16 * render_size ?a)"
    using sz' by (auto simp: Asteroid_GetRadius_def radius_values)
  have base: "a_baseDamage ?a = ?base"
    using u MakeAsteroid_fields(2) [of P w h shape d] by simp
  have "?base = 5 \<or> ?base = 10 \<or> ?base = 15"
    by (cases "a_class ?a") simp_all
  with sz' base have dmg: "Asteroid_GetDamage ?a = ?base * render_size ?a"
    unfolding Asteroid_GetDamage_def by (auto simp: wrap32_small)
  have cls: "shape = TRIANGLE \<and> a_class ?a = TriangleAsteroid
          \<or> shape = SQUARE \<and> a_class ?a = SquareAsteroid
          \<or> shape = PENTAGON \<and> a_class ?a = PentagonAsteroid
          \<or> shape = RANDOM"
    using u by (cases shape) (simp_all add: MakeAsteroid_fields)
  have on: "GetRandomValue 0 0 2 = 0 \<and> GetRandomValue 1 0 2 = 1 \<and> GetRandomValue 2 0 2 = 2"
    by (simp add: GetRandomValue_onto)
  from v sz sz' rad dmg base u cls on show ?thesis
    unfolding Let_def by simp
qed

text \<open>
  A pentagon made with the draw 2 for its size and updated in two frames: size 4, radius
  64, damage 60.
\<close>

theorem asteroid_size_spec_witness:
  "render_size (Asteroid_updates (Renderer_Init C_WIDTH C_HEIGHT) [lit 1 60, lit 1 60]
      (MakeAsteroid P0 C_WIDTH C_HEIGHT PENTAGON (no_draws\<lparr>size_draw := 2\<rparr>))) = 4
   \<and> Asteroid_GetRadius (Asteroid_updates (Renderer_Init C_WIDTH C_HEIGHT) [lit 1 60, lit 1 60]
      (MakeAsteroid P0 C_WIDTH C_HEIGHT PENTAGON (no_draws\<lparr>size_draw := 2\<rparr>))) = f32 64
   \<and> Asteroid_GetDamage (Asteroid_updates (Renderer_Init C_WIDTH C_HEIGHT) [lit 1 60, lit 1 60]
      (MakeAsteroid P0 C_WIDTH C_HEIGHT PENTAGON (no_draws\<lparr>size_draw := 2\<rparr>))) = 60"
proof -
  let ?d = "no_draws\<lparr>size_draw := 2\<rparr>"
  have v: "GetRandomValue (size_draw ?d) 0 2 = 2"
    by code_simp
  note T = asteroid_size_spec [where P = P0 and w = C_WIDTH and h = C_HEIGHT
      and shape = PENTAGON and d = ?d and R = "Renderer_Init C_WIDTH C_HEIGHT"
      and dts = "[lit 1 60, lit 1 60]", unfolded Let_def v]
  from T show ?thesis
    by auto
qed

end
